theory Spec2Isabelle
  imports Main "HOL-Library.Word"
begin

section \<open>Enumerations, errors and checked arithmetic\<close>

text \<open>
  The contracts of the crafting and equipment engine are Solidity 0.8 systems over MUD
  tables. A revert is a value \<open>Inl e\<close> of the result type; since a revert rolls the
  whole transaction back, a rejected operation has no successor state at all.
  Unsigned integers are natural numbers; every checked operation of Solidity 0.8 that can
  leave its range is written with its range test and reverts with \<open>Panic\<close>.
  Artifact ids are the \<open>uint32\<close> keys of the tables.
\<close>

type_synonym u32 = "32 word"

datatype Errors =
    NotPlanetOwner
  | InvalidPlanetType
  | PlanetLevelTooLow
  | InvalidModuleType
  | InvalidSpaceshipType
  | FoundryCraftingLimitReached
  | InvalidMaterialAmount
  | MissingRequiredMaterials
  | InvalidMaterialType
  | InsufficientMaterialOnPlanet
  | ArtifactNotOnPlanet
  | ArtifactNotOnPlanet1
  | ArtifactNotOnPlanet2
  | ArtifactNotOnPlanet3
  | InvalidSpaceshipArtifact
  | InvalidModuleArtifact
  | ModuleAlreadyInstalled
  | ModuleSlotFull
  | ModuleNotInstalled
  | ArtifactStorageFull
  | FoundryAtMaxUpgradeLevel
  | InsufficientFoundryUpgradeFee nat nat
  | Panic
  | AbiDecodingFailed

text \<open>
  Modelled from the spec: the enumerations of \<open>codegen/common.sol\<close>, which is not among
  the sources. Rarity has the five tiers of the spec after the zero value; the space type
  is read as a number by \<open>uint8(planet.spaceType) * 3\<close>, in declaration order; of the
  planet types only the comparison with \<open>FOUNDRY\<close> is used; the material kinds are the
  eight that the recipes name and the remaining kinds of the enumeration.
  A biome is kept as its \<open>uint8\<close> value, since the code compares and converts it as a
  number: 0 is the unknown biome, 1 (Ocean) to 10 (Corrupted) are the valid ones.
\<close>

datatype ArtifactRarity = UNKNOWN | COMMON | RARE | EPIC | LEGENDARY | MYTHIC

datatype SpaceType = UNKNOWN_SPACE | NEBULA | SPACE | DEEP_SPACE | DEAD_SPACE

datatype PlanetType = UNKNOWN_PLANET | PLANET | SILVER_MINE | FOUNDRY | TRADING_POST | SILVER_BANK

datatype MaterialType =
    UNKNOWN_MATERIAL | WATER_CRYSTALS | LIVING_WOOD | WINDSTEEL | AURORIUM | MYCELIUM
  | SANDGLASS | CRYOSTONE | SCRAPIUM | PYROSTEEL | BLACKALLOY | CORRUPTED_CRYSTAL

fun spaceTypeIndex :: "SpaceType \<Rightarrow> nat" where
  "spaceTypeIndex UNKNOWN_SPACE = 0"
| "spaceTypeIndex NEBULA = 1"
| "spaceTypeIndex SPACE = 2"
| "spaceTypeIndex DEEP_SPACE = 3"
| "spaceTypeIndex DEAD_SPACE = 4"

fun materialIndex :: "MaterialType \<Rightarrow> nat" where
  "materialIndex UNKNOWN_MATERIAL = 0"
| "materialIndex WATER_CRYSTALS = 1"
| "materialIndex LIVING_WOOD = 2"
| "materialIndex WINDSTEEL = 3"
| "materialIndex AURORIUM = 4"
| "materialIndex MYCELIUM = 5"
| "materialIndex SANDGLASS = 6"
| "materialIndex CRYOSTONE = 7"
| "materialIndex SCRAPIUM = 8"
| "materialIndex PYROSTEEL = 9"
| "materialIndex BLACKALLOY = 10"
| "materialIndex CORRUPTED_CRYSTAL = 11"

definition OCEAN :: nat where "OCEAN = 1"
definition CORRUPTED :: nat where "CORRUPTED = 10"
definition BIOME_MAX :: nat where "BIOME_MAX = 10"

definition UINT8_MAX :: nat where "UINT8_MAX = 255"
definition UINT16_MAX :: nat where "UINT16_MAX = 65535"
definition UINT256_MAX :: nat where "UINT256_MAX = 2 ^ 256 - 1"

definition checked_add :: "nat \<Rightarrow> nat \<Rightarrow> nat \<Rightarrow> Errors + nat" where
  "checked_add bound a b = (if a + b \<le> bound then Inr (a + b) else Inl Panic)"

definition checked_sub :: "nat \<Rightarrow> nat \<Rightarrow> Errors + nat" where
  "checked_sub a b = (if b \<le> a then Inr (a - b) else Inl Panic)"

definition checked_mul :: "nat \<Rightarrow> nat \<Rightarrow> nat \<Rightarrow> Errors + nat" where
  "checked_mul bound a b = (if a * b \<le> bound then Inr (a * b) else Inl Panic)"

section \<open>RarityRoller\<close>

text \<open>
  \<open>ModuleCraftingSystem._calculateModuleRarity\<close> and
  \<open>FoundryCraftingSystem._calculateSpaceshipRarity\<close>. The level is a \<open>uint256\<close> and
  \<open>planetLevel += 2\<close> is checked.
\<close>

definition calculateModuleRarity :: "nat \<Rightarrow> nat \<Rightarrow> Errors + ArtifactRarity" where
  "calculateModuleRarity planetLevel seed =
     (let lvlBonusSeed = and seed 0xfff000 in
      case (if lvlBonusSeed < 0x40000 then checked_add UINT256_MAX planetLevel 2
            else if lvlBonusSeed < 0x100000 then checked_add UINT256_MAX planetLevel 1
            else Inr planetLevel) of
        Inl e \<Rightarrow> Inl e
      | Inr lvl \<Rightarrow>
          if lvl \<le> 1 then Inr COMMON
          else if lvl \<le> 3 then Inr RARE
          else if lvl \<le> 5 then Inr EPIC
          else if lvl \<le> 7 then Inr LEGENDARY
          else Inr MYTHIC)"

definition calculateSpaceshipRarity :: "nat \<Rightarrow> nat \<Rightarrow> Errors + ArtifactRarity" where
  "calculateSpaceshipRarity planetLevel seed =
     (let lvlBonusSeed = and seed 0xfff000 in
      case (if lvlBonusSeed < 0x40000 then checked_add UINT256_MAX planetLevel 2
            else if lvlBonusSeed < 0x100000 then checked_add UINT256_MAX planetLevel 1
            else Inr planetLevel) of
        Inl e \<Rightarrow> Inl e
      | Inr lvl \<Rightarrow>
          if lvl \<le> 1 then Inr COMMON
          else if lvl \<le> 3 then Inr RARE
          else if lvl \<le> 5 then Inr EPIC
          else if lvl \<le> 7 then Inr LEGENDARY
          else Inr MYTHIC)"

text \<open>The rarity roll as the specification words it.\<close>

definition rarity_slice :: "nat \<Rightarrow> nat" where
  "rarity_slice seed = and seed 0xfff000"

definition effective_level :: "nat \<Rightarrow> nat \<Rightarrow> nat" where
  "effective_level seed lvl =
     (if rarity_slice seed < 0x40000 then lvl + 2
      else if rarity_slice seed < 0x100000 then lvl + 1
      else lvl)"

definition rarity_of_level :: "nat \<Rightarrow> ArtifactRarity" where
  "rarity_of_level e =
     (if e \<le> 1 then COMMON else if e \<le> 3 then RARE else if e \<le> 5 then EPIC
      else if e \<le> 7 then LEGENDARY else MYTHIC)"

section \<open>BonusCalculator\<close>

definition getRarityMultiplier :: "ArtifactRarity \<Rightarrow> nat" where
  "getRarityMultiplier rarity =
     (if rarity = COMMON then 100
      else if rarity = RARE then 120
      else if rarity = EPIC then 150
      else if rarity = LEGENDARY then 200
      else if rarity = MYTHIC then 300
      else 100)"

definition getBiomeBonus :: "nat \<Rightarrow> nat" where
  "getBiomeBonus b =
     (if b \<ge> 1 \<and> b \<le> 3 then 1
      else if b \<ge> 4 \<and> b \<le> 6 then 2
      else if b \<ge> 7 \<and> b \<le> 9 then 4
      else if b = 10 then 8
      else 0)"

subsection \<open>Modules (\<open>ModuleCraftingSystem\<close>)\<close>

definition getModuleRoleAttackBonus :: "nat \<Rightarrow> nat" where
  "getModuleRoleAttackBonus moduleType =
     (if moduleType = 1 then 0 else if moduleType = 2 then 8
      else if moduleType = 3 then 0 else if moduleType = 4 then 0 else 0)"

definition getModuleRoleDefenseBonus :: "nat \<Rightarrow> nat" where
  "getModuleRoleDefenseBonus moduleType =
     (if moduleType = 1 then 0 else if moduleType = 2 then 0
      else if moduleType = 3 then 8 else if moduleType = 4 then 10 else 0)"

definition getModuleRoleSpeedBonus :: "nat \<Rightarrow> nat" where
  "getModuleRoleSpeedBonus moduleType =
     (if moduleType = 1 then 8 else if moduleType = 2 then 0
      else if moduleType = 3 then 0 else if moduleType = 4 then 0 else 0)"

definition getModuleRoleRangeBonus :: "nat \<Rightarrow> nat" where
  "getModuleRoleRangeBonus moduleType =
     (if moduleType = 1 then 3 else if moduleType = 2 then 5
      else if moduleType = 3 then 0 else if moduleType = 4 then 0 else 0)"

text \<open>
  The four module bonus functions compute in \<open>uint16\<close>; the sum and the product are
  checked, the division truncates.
\<close>

definition scaledBonus :: "nat \<Rightarrow> nat \<Rightarrow> nat \<Rightarrow> nat \<Rightarrow> Errors + nat" where
  "scaledBonus biomeBonus roleBonus rarityMultiplier divisor =
     (case checked_add UINT16_MAX biomeBonus roleBonus of
        Inl e \<Rightarrow> Inl e
      | Inr totalBonus \<Rightarrow>
          (case checked_mul UINT16_MAX totalBonus rarityMultiplier of
             Inl e \<Rightarrow> Inl e
           | Inr p \<Rightarrow> Inr (p div divisor)))"

definition calculateAttackBonus :: "nat \<Rightarrow> ArtifactRarity \<Rightarrow> nat \<Rightarrow> Errors + nat" where
  "calculateAttackBonus biome rarity moduleType =
     (let biomeBonus = getBiomeBonus biome;
          roleBonus = getModuleRoleAttackBonus moduleType;
          rarityMultiplier = getRarityMultiplier rarity
      in if roleBonus = 0 then Inr 0
         else scaledBonus biomeBonus roleBonus rarityMultiplier 400)"

definition calculateDefenseBonus :: "nat \<Rightarrow> ArtifactRarity \<Rightarrow> nat \<Rightarrow> Errors + nat" where
  "calculateDefenseBonus biome rarity moduleType =
     (let biomeBonus = getBiomeBonus biome;
          roleBonus = getModuleRoleDefenseBonus moduleType;
          rarityMultiplier = getRarityMultiplier rarity
      in if roleBonus = 0 then Inr 0
         else scaledBonus biomeBonus roleBonus rarityMultiplier 100)"

definition calculateSpeedBonus :: "nat \<Rightarrow> ArtifactRarity \<Rightarrow> nat \<Rightarrow> Errors + nat" where
  "calculateSpeedBonus biome rarity moduleType =
     (let biomeBonus = getBiomeBonus biome;
          roleBonus = getModuleRoleSpeedBonus moduleType;
          rarityMultiplier = getRarityMultiplier rarity
      in if roleBonus = 0 then Inr 0
         else scaledBonus biomeBonus roleBonus rarityMultiplier 100)"

definition calculateRangeBonus :: "nat \<Rightarrow> ArtifactRarity \<Rightarrow> nat \<Rightarrow> Errors + nat" where
  "calculateRangeBonus biome rarity moduleType =
     (let biomeBonus = getBiomeBonus biome;
          roleBonus = getModuleRoleRangeBonus moduleType;
          rarityMultiplier = getRarityMultiplier rarity
      in if roleBonus = 0 then Inr 0
         else scaledBonus biomeBonus roleBonus rarityMultiplier 100)"

subsection \<open>Spaceships (\<open>FoundryCraftingSystem\<close>)\<close>

definition getSpaceshipRoleAttackBonus :: "nat \<Rightarrow> nat" where
  "getSpaceshipRoleAttackBonus spaceshipType =
     (if spaceshipType = 1 then 0 else if spaceshipType = 2 then 5
      else if spaceshipType = 3 then 10 else if spaceshipType = 4 then 5 else 0)"

definition getSpaceshipRoleDefenseBonus :: "nat \<Rightarrow> nat" where
  "getSpaceshipRoleDefenseBonus spaceshipType =
     (if spaceshipType = 1 then 0 else if spaceshipType = 2 then 5
      else if spaceshipType = 3 then 10 else if spaceshipType = 4 then 15 else 0)"

definition getSpaceshipRoleSpeedBonus :: "nat \<Rightarrow> nat" where
  "getSpaceshipRoleSpeedBonus spaceshipType =
     (if spaceshipType = 1 then 10 else if spaceshipType = 2 then 0
      else if spaceshipType = 3 then 0 else if spaceshipType = 4 then 0 else 0)"

definition getSpaceshipRoleRangeBonus :: "nat \<Rightarrow> nat" where
  "getSpaceshipRoleRangeBonus spaceshipType =
     (if spaceshipType = 1 then 5 else if spaceshipType = 2 then 5
      else if spaceshipType = 3 then 0 else if spaceshipType = 4 then 3 else 0)"

definition calculateShipAttackBonus :: "nat \<Rightarrow> ArtifactRarity \<Rightarrow> nat \<Rightarrow> Errors + nat" where
  "calculateShipAttackBonus biome rarity spaceshipType =
     (let biomeBonus = getBiomeBonus biome;
          roleBonus = getSpaceshipRoleAttackBonus spaceshipType;
          rarityMultiplier = getRarityMultiplier rarity
      in if roleBonus = 0 then Inr 0
         else scaledBonus biomeBonus roleBonus rarityMultiplier 100)"

definition calculateShipDefenseBonus :: "nat \<Rightarrow> ArtifactRarity \<Rightarrow> nat \<Rightarrow> Errors + nat" where
  "calculateShipDefenseBonus biome rarity spaceshipType =
     (let biomeBonus = getBiomeBonus biome;
          roleBonus = getSpaceshipRoleDefenseBonus spaceshipType;
          rarityMultiplier = getRarityMultiplier rarity
      in if roleBonus = 0 then Inr 0
         else scaledBonus biomeBonus roleBonus rarityMultiplier 100)"

definition calculateShipSpeedBonus :: "nat \<Rightarrow> ArtifactRarity \<Rightarrow> nat \<Rightarrow> Errors + nat" where
  "calculateShipSpeedBonus biome rarity spaceshipType =
     (let biomeBonus = getBiomeBonus biome;
          roleBonus = getSpaceshipRoleSpeedBonus spaceshipType;
          rarityMultiplier = getRarityMultiplier rarity
      in if roleBonus = 0 then Inr 0
         else scaledBonus biomeBonus roleBonus rarityMultiplier 100)"

definition calculateShipRangeBonus :: "nat \<Rightarrow> ArtifactRarity \<Rightarrow> nat \<Rightarrow> Errors + nat" where
  "calculateShipRangeBonus biome rarity spaceshipType =
     (let biomeBonus = getBiomeBonus biome;
          roleBonus = getSpaceshipRoleRangeBonus spaceshipType;
          rarityMultiplier = getRarityMultiplier rarity
      in if roleBonus = 0 then Inr 0
         else scaledBonus biomeBonus roleBonus rarityMultiplier 100)"

text \<open>
  The formula of the specification: the quotient rounded to the nearest integer, and the
  quotient truncated as the integer division of the contract does.
\<close>

definition round_div :: "nat \<Rightarrow> nat \<Rightarrow> nat" where
  "round_div n d = (2 * n + d) div (2 * d)"

definition spec_bonus_round :: "nat \<Rightarrow> nat \<Rightarrow> nat \<Rightarrow> nat \<Rightarrow> nat" where
  "spec_bonus_round biomeBonus roleBonus mult d =
     (if roleBonus = 0 then 0 else round_div ((biomeBonus + roleBonus) * mult) d)"

definition spec_bonus_floor :: "nat \<Rightarrow> nat \<Rightarrow> nat \<Rightarrow> nat \<Rightarrow> nat" where
  "spec_bonus_floor biomeBonus roleBonus mult d =
     (if roleBonus = 0 then 0 else ((biomeBonus + roleBonus) * mult) div d)"

section \<open>CraftingLimiter\<close>

definition getCraftingMMultiplier :: "nat \<Rightarrow> nat" where
  "getCraftingMMultiplier craftingCount =
     (if craftingCount = 0 then 100
      else if craftingCount = 1 then 150
      else if craftingCount = 2 then 225
      else 100)"

definition getCraftingMultiplier :: "nat \<Rightarrow> nat" where
  "getCraftingMultiplier craftingCount =
     (if craftingCount = 0 then 100
      else if craftingCount = 1 then 150
      else if craftingCount = 2 then 225
      else 100)"

section \<open>Tables and the world state\<close>

text \<open>
  Each MUD table is a total function from its key to a row; a row never written is the
  all-zero row. A planet is the in-memory \<open>Planet\<close> struct that a system reads,
  changes and writes back.
\<close>

record Planet =
  planetHash :: nat
  owner :: nat
  planetType :: PlanetType
  level :: nat
  spaceType :: SpaceType
  perlin :: nat
  materialStorage :: "MaterialType \<Rightarrow> nat"
  artifactStorage :: "u32 list"

record BonusData =
  attackBonus :: nat
  defenseBonus :: nat
  speedBonus :: nat
  rangeBonus :: nat

record SpaceshipSlotData =
  slot_moduleSlotType :: nat
  slot_moduleId :: u32

record SpaceshipModuleInstalledData =
  inst_artifactId :: u32
  inst_moduleSlotType :: nat
  inst_installed :: bool

record CraftedModulesData =
  cm_moduleType :: nat
  cm_biome :: nat
  cm_rarity :: ArtifactRarity
  cm_craftedAt :: nat
  cm_crafter :: nat

record CraftedSpaceshipData =
  cs_spaceshipType :: nat
  cs_biome :: nat
  cs_rarity :: ArtifactRarity
  cs_craftedAt :: nat
  cs_nftTokenId :: nat
  cs_crafter :: nat

record ArtifactData =
  artifactIndex :: nat
  art_rarity :: ArtifactRarity

record FoundryCraftingCountData =
  count :: nat
  lastCraftTime :: nat

record World =
  planets :: "nat \<Rightarrow> Planet"
  threshold1 :: nat
  threshold2 :: nat
  FoundryCraftingCount :: "nat \<Rightarrow> FoundryCraftingCountData"
  FoundryUpgrade :: "nat \<Rightarrow> nat"
  CraftedModules :: "u32 \<Rightarrow> CraftedModulesData"
  CraftedSpaceship :: "u32 \<Rightarrow> CraftedSpaceshipData"
  ModuleBonus :: "u32 \<Rightarrow> BonusData"
  SpaceshipBonus :: "u32 \<Rightarrow> BonusData"
  SpaceshipSlot :: "u32 \<times> nat \<Rightarrow> SpaceshipSlotData"
  SpaceshipModuleInstalled :: "u32 \<Rightarrow> SpaceshipModuleInstalledData"
  ArtifactTable :: "u32 \<Rightarrow> ArtifactData"
  ArtifactOwner :: "u32 \<Rightarrow> nat"
  CounterArtifact :: nat
  EntryFee :: nat
  RevenueStats :: nat

text \<open>
  What a call takes from its transaction and from the libraries that are not among the
  sources: the sender, the value sent, the block time, the two \<open>keccak256\<close> results
  (the crafting seed of \<open>block.timestamp, executor, planetHash\<close> and the biome
  base of \<open>planetHash, perlin\<close>), the id that \<open>ArtifactLib\<close> gives the artifact it
  creates, and the number of artifacts a planet can hold.
\<close>

record Env =
  msgSender :: nat
  msgValue :: nat
  blockTimestamp :: nat
  craftSeed :: nat
  biomeHash :: "nat \<Rightarrow> nat \<Rightarrow> nat"
  newArtifactId :: u32
  maxArtifacts :: nat

definition and_then :: "Errors + 'a \<Rightarrow> ('a \<Rightarrow> Errors + 'b) \<Rightarrow> Errors + 'b" where
  "and_then r f = (case r of Inl e \<Rightarrow> Inl e | Inr v \<Rightarrow> f v)"

subsection \<open>The planet library\<close>

text \<open>
  Modelled from the spec: \<open>libraries/Planet.sol\<close> and \<open>DFUtils.readInitedPlanet\<close>
  are not among the sources. The station's inventory is the list of the artifact ids it
  holds, bounded by its capacity; removing an artifact that is not there and adding one
  to a full inventory are rejected; writing a planet back stores it under its hash and
  records the planet as the owner of every artifact in its inventory (the comment at the
  end of \<open>_executeUninstallModule\<close>: the owner record is set by
  \<open>planet.writeToStore()\<close>). Resource balances are read and written as they are.
\<close>

definition readInitedPlanet :: "World \<Rightarrow> nat \<Rightarrow> Planet" where
  "readInitedPlanet s h = (planets s h)\<lparr>planetHash := h\<rparr>"

definition getMaterial :: "Planet \<Rightarrow> MaterialType \<Rightarrow> nat" where
  "getMaterial p m = materialStorage p m"

definition setMaterial :: "Planet \<Rightarrow> MaterialType \<Rightarrow> nat \<Rightarrow> Planet" where
  "setMaterial p m v = p\<lparr>materialStorage := (materialStorage p)(m := v)\<rparr>"

definition hasArtifactSlot :: "Env \<Rightarrow> Planet \<Rightarrow> bool" where
  "hasArtifactSlot env p = (length (artifactStorage p) < maxArtifacts env)"

definition pushArtifact :: "Env \<Rightarrow> Planet \<Rightarrow> u32 \<Rightarrow> Errors + Planet" where
  "pushArtifact env p a =
     (if length (artifactStorage p) < maxArtifacts env
      then Inr (p\<lparr>artifactStorage := artifactStorage p @ [a]\<rparr>)
      else Inl ArtifactStorageFull)"

definition removeArtifact :: "Planet \<Rightarrow> u32 \<Rightarrow> Errors + Planet" where
  "removeArtifact p a =
     (if a \<in> set (artifactStorage p)
      then Inr (p\<lparr>artifactStorage := remove1 a (artifactStorage p)\<rparr>)
      else Inl ArtifactNotOnPlanet)"

definition writeToStore :: "Planet \<Rightarrow> World \<Rightarrow> World" where
  "writeToStore p s =
     s\<lparr>planets := (planets s)(planetHash p := p),
       ArtifactOwner := (\<lambda>a. if a \<in> set (artifactStorage p) then planetHash p
                               else ArtifactOwner s a)\<rparr>"

subsection \<open>The biome of a planet\<close>

text \<open>
  \<open>_calculateBiomeFromPlanet\<close>, with the same text in \<open>ModuleCraftingSystem\<close>,
  \<open>FoundryCraftingSystem\<close> and \<open>FoundryUpgradeSystem\<close>. \<open>res -= 2\<close> is a checked
  \<open>uint256\<close> subtraction.
\<close>

definition calculateBiomeFromPlanet :: "Env \<Rightarrow> World \<Rightarrow> Planet \<Rightarrow> Errors + nat" where
  "calculateBiomeFromPlanet env s planet =
     (if spaceType planet = DEAD_SPACE then Inr CORRUPTED
      else
        let biomeBase = biomeHash env (planetHash planet) (perlin planet) mod 1000;
            res = spaceTypeIndex (spaceType planet) * 3
        in and_then
             (if biomeBase < threshold1 s then checked_sub res 2
              else if biomeBase < threshold2 s then checked_sub res 1
              else Inr res)
             (\<lambda>res. Inr (if res > BIOME_MAX then BIOME_MAX else res)))"

section \<open>ResourceLedger and the crafting systems\<close>

subsection \<open>Recipe validation\<close>

text \<open>
  The loops of \<open>_validateModuleRecipe\<close> and \<open>_validateRecipe\<close>, which have the same
  text in both crafting systems. \<open>materialFound\<close> and \<open>materialAmounts\<close> are the two
  arrays of length 12, indexed by \<open>uint8(materials[i])\<close>; reading an array past its
  end panics.
\<close>

fun storeProvided ::
  "MaterialType list \<Rightarrow> nat list \<Rightarrow> (nat \<Rightarrow> bool) \<Rightarrow> (nat \<Rightarrow> nat)
     \<Rightarrow> Errors + ((nat \<Rightarrow> bool) \<times> (nat \<Rightarrow> nat))" where
  "storeProvided [] amounts materialFound materialAmounts = Inr (materialFound, materialAmounts)"
| "storeProvided (m # ms) [] materialFound materialAmounts = Inl Panic"
| "storeProvided (m # ms) (a # as) materialFound materialAmounts =
     (let matType = materialIndex m in
      if matType > 12 then Inl InvalidMaterialType
      else if matType \<ge> 12 then Inl Panic
      else if materialFound matType then Inl InvalidMaterialAmount
      else storeProvided ms as (materialFound(matType := True)) (materialAmounts(matType := a)))"

fun checkExpected ::
  "MaterialType list \<Rightarrow> nat list \<Rightarrow> nat \<Rightarrow> (nat \<Rightarrow> bool) \<Rightarrow> (nat \<Rightarrow> nat)
     \<Rightarrow> Errors + unit" where
  "checkExpected [] expectedAmounts craftingMultiplier materialFound materialAmounts = Inr ()"
| "checkExpected (m # ms) [] craftingMultiplier materialFound materialAmounts = Inl Panic"
| "checkExpected (m # ms) (e # es) craftingMultiplier materialFound materialAmounts =
     (let expectedMatType = materialIndex m in
      if \<not> materialFound expectedMatType then Inl MissingRequiredMaterials
      else
        let expectedAmountWithMultiplier = (e * craftingMultiplier) div 100;
            providedAmount = materialAmounts expectedMatType
        in if providedAmount < expectedAmountWithMultiplier
              \<or> providedAmount > expectedAmountWithMultiplier + 1
           then Inl InvalidMaterialAmount
           else checkExpected ms es craftingMultiplier materialFound materialAmounts)"

fun checkSufficient ::
  "Planet \<Rightarrow> MaterialType list \<Rightarrow> nat list \<Rightarrow> nat \<Rightarrow> Errors + unit" where
  "checkSufficient foundry [] expectedAmounts craftingMultiplier = Inr ()"
| "checkSufficient foundry (m # ms) [] craftingMultiplier = Inl Panic"
| "checkSufficient foundry (m # ms) (e # es) craftingMultiplier =
     (let requiredAmount = (e * craftingMultiplier) div 100;
          currentAmount = getMaterial foundry m
      in if currentAmount < requiredAmount * 1000 then Inl InsufficientMaterialOnPlanet
         else checkSufficient foundry ms es craftingMultiplier)"

definition validateRecipeAgainst ::
  "Planet \<Rightarrow> MaterialType list \<Rightarrow> nat list \<Rightarrow> MaterialType list \<Rightarrow> nat list \<Rightarrow> nat
     \<Rightarrow> Errors + unit" where
  "validateRecipeAgainst foundry expectedMaterials expectedAmounts materials amounts
       craftingMultiplier =
     (if length materials \<noteq> length expectedMaterials then Inl MissingRequiredMaterials
      else
        and_then (storeProvided materials amounts (\<lambda>i. False) (\<lambda>i. 0))
          (\<lambda>(materialFound, materialAmounts).
             and_then (checkExpected expectedMaterials expectedAmounts craftingMultiplier
                         materialFound materialAmounts)
               (\<lambda>u. if length materials > length expectedMaterials
                     then Inl InvalidMaterialAmount
                     else checkSufficient foundry expectedMaterials expectedAmounts
                            craftingMultiplier)))"

definition moduleRecipe :: "nat \<Rightarrow> Errors + (MaterialType list \<times> nat list)" where
  "moduleRecipe moduleType =
     (if moduleType = 1 then Inr ([WINDSTEEL, AURORIUM], [80, 40])
      else if moduleType = 2 then Inr ([PYROSTEEL, SCRAPIUM], [120, 80])
      else if moduleType = 3 then Inr ([BLACKALLOY, CORRUPTED_CRYSTAL], [160, 80])
      else if moduleType = 4 then Inr ([LIVING_WOOD, CRYOSTONE], [160, 120])
      else Inl InvalidModuleType)"

definition spaceshipRecipe :: "nat \<Rightarrow> Errors + (MaterialType list \<times> nat list)" where
  "spaceshipRecipe spaceshipType =
     (if spaceshipType = 1 then Inr ([WINDSTEEL, AURORIUM], [100, 50])
      else if spaceshipType = 2 then Inr ([PYROSTEEL, SCRAPIUM], [150, 100])
      else if spaceshipType = 3 then Inr ([BLACKALLOY, CORRUPTED_CRYSTAL], [200, 100])
      else if spaceshipType = 4 then Inr ([LIVING_WOOD, CRYOSTONE], [200, 150])
      else Inl InvalidSpaceshipType)"

definition validateModuleRecipe ::
  "Planet \<Rightarrow> nat \<Rightarrow> MaterialType list \<Rightarrow> nat list \<Rightarrow> nat \<Rightarrow> Errors + unit" where
  "validateModuleRecipe foundry moduleType materials amounts craftingMultiplier =
     (if length materials \<noteq> length amounts then Inl InvalidMaterialAmount
      else if length materials = 0 then Inl MissingRequiredMaterials
      else and_then (moduleRecipe moduleType)
             (\<lambda>(expectedMaterials, expectedAmounts).
                validateRecipeAgainst foundry expectedMaterials expectedAmounts materials
                  amounts craftingMultiplier))"

definition validateRecipe ::
  "Planet \<Rightarrow> nat \<Rightarrow> MaterialType list \<Rightarrow> nat list \<Rightarrow> nat \<Rightarrow> Errors + unit" where
  "validateRecipe foundry spaceshipType materials amounts craftingMultiplier =
     (if length materials \<noteq> length amounts then Inl InvalidMaterialAmount
      else if length materials = 0 then Inl MissingRequiredMaterials
      else and_then (spaceshipRecipe spaceshipType)
             (\<lambda>(expectedMaterials, expectedAmounts).
                validateRecipeAgainst foundry expectedMaterials expectedAmounts materials
                  amounts craftingMultiplier))"

subsection \<open>Validation of a craft\<close>

definition validateModuleCrafting ::
  "World \<Rightarrow> Planet \<Rightarrow> nat \<Rightarrow> nat \<Rightarrow> MaterialType list \<Rightarrow> nat list \<Rightarrow> Errors + unit" where
  "validateModuleCrafting s foundry executor moduleType materials amounts =
     (if owner foundry \<noteq> executor then Inl NotPlanetOwner
      else if planetType foundry \<noteq> FOUNDRY then Inl InvalidPlanetType
      else if level foundry < 4 then Inl PlanetLevelTooLow
      else if moduleType < 1 \<or> moduleType > 4 then Inl InvalidModuleType
      else
        let craftingData = FoundryCraftingCount s (planetHash foundry);
            upgradeLevel = FoundryUpgrade s (planetHash foundry)
        in and_then (checked_add UINT8_MAX 1 upgradeLevel)
             (\<lambda>maxCrafts.
                if count craftingData \<ge> maxCrafts then Inl FoundryCraftingLimitReached
                else
                  let craftingMultiplier = getCraftingMMultiplier (count craftingData)
                  in validateModuleRecipe foundry moduleType materials amounts
                       craftingMultiplier))"

definition validateCrafting ::
  "World \<Rightarrow> Planet \<Rightarrow> nat \<Rightarrow> nat \<Rightarrow> MaterialType list \<Rightarrow> nat list \<Rightarrow> Errors + unit" where
  "validateCrafting s foundry executor spaceshipType materials amounts =
     (if owner foundry \<noteq> executor then Inl NotPlanetOwner
      else if planetType foundry \<noteq> FOUNDRY then Inl InvalidPlanetType
      else if level foundry < 4 then Inl PlanetLevelTooLow
      else if spaceshipType < 1 \<or> spaceshipType > 4 then Inl InvalidSpaceshipType
      else
        let craftingData = FoundryCraftingCount s (planetHash foundry);
            upgradeLevel = FoundryUpgrade s (planetHash foundry)
        in and_then (checked_add UINT8_MAX 1 upgradeLevel)
             (\<lambda>maxCrafts.
                if count craftingData \<ge> maxCrafts then Inl FoundryCraftingLimitReached
                else
                  let craftingMultiplier = getCraftingMultiplier (count craftingData)
                  in validateRecipe foundry spaceshipType materials amounts
                       craftingMultiplier))"

subsection \<open>Execution of a craft\<close>

text \<open>
  The consuming loop of \<open>_executeCrafting\<close>: \<open>requiredAmount * 1000\<close> and the
  subtraction from the balance are checked \<open>uint256\<close> operations.
\<close>

fun consumeMaterials :: "Planet \<Rightarrow> MaterialType list \<Rightarrow> nat list \<Rightarrow> Errors + Planet" where
  "consumeMaterials foundry [] amounts = Inr foundry"
| "consumeMaterials foundry (m # ms) [] = Inl Panic"
| "consumeMaterials foundry (m # ms) (a # as) =
     (let currentAmount = getMaterial foundry m;
          requiredAmount = a
      in and_then (checked_mul UINT256_MAX requiredAmount 1000)
           (\<lambda>scaled. and_then (checked_sub currentAmount scaled)
              (\<lambda>rest. consumeMaterials (setMaterial foundry m rest) ms as)))"

text \<open>
  Modelled from the spec: \<open>ArtifactLib.NewModuleArtifact\<close>,
  \<open>ArtifactLib.NewSpaceshipArtifact\<close> and \<open>Artifact.writeToStore\<close> are not among the
  sources. The new artifact has the id the library gives it and is stored in the artifact
  table with its kind (index 23 for a module, 3 for a spaceship, the values that
  \<open>_validateInstallModule\<close> tests) and its rarity.
\<close>

definition writeArtifact :: "u32 \<Rightarrow> nat \<Rightarrow> ArtifactRarity \<Rightarrow> World \<Rightarrow> World" where
  "writeArtifact a idx rarity s =
     s\<lparr>ArtifactTable := (ArtifactTable s)(a := \<lparr>artifactIndex = idx, art_rarity = rarity\<rparr>)\<rparr>"

definition executeCrafting_module ::
  "Env \<Rightarrow> World \<Rightarrow> Planet \<Rightarrow> nat \<Rightarrow> nat \<Rightarrow> MaterialType list \<Rightarrow> nat list \<Rightarrow> nat
     \<Rightarrow> Errors + World" where
  "executeCrafting_module env s foundry0 executor moduleType materials amounts biome0 =
     and_then (consumeMaterials foundry0 materials amounts) (\<lambda>foundry.
       let craftingData = FoundryCraftingCount s (planetHash foundry) in
       and_then (calculateModuleRarity (level foundry) (craftSeed env)) (\<lambda>rarity.
       and_then (calculateBiomeFromPlanet env s foundry) (\<lambda>calculatedBiome.
         let biome = (if biome0 = 0 \<or> biome0 > BIOME_MAX then calculatedBiome else biome0);
             artifactId = newArtifactId env
         in
         and_then (calculateAttackBonus biome rarity moduleType) (\<lambda>ab.
         and_then (calculateDefenseBonus biome rarity moduleType) (\<lambda>db.
         and_then (calculateSpeedBonus biome rarity moduleType) (\<lambda>sb.
         and_then (calculateRangeBonus biome rarity moduleType) (\<lambda>rb.
           let s1 = s\<lparr>CraftedModules := (CraftedModules s)(artifactId :=
                         \<lparr>cm_moduleType = moduleType, cm_biome = biome, cm_rarity = rarity,
                          cm_craftedAt = blockTimestamp env mod 2 ^ 64,
                          cm_crafter = executor\<rparr>),
                       ModuleBonus := (ModuleBonus s)(artifactId :=
                         \<lparr>attackBonus = ab, defenseBonus = db, speedBonus = sb,
                          rangeBonus = rb\<rparr>)\<rparr>;
               s2 = writeArtifact artifactId 23 rarity s1
           in
           and_then (pushArtifact env foundry artifactId) (\<lambda>foundry'.
             let s3 = writeToStore foundry' s2 in
             and_then (checked_add UINT8_MAX (count craftingData) 1) (\<lambda>c.
               Inr (s3\<lparr>FoundryCraftingCount := (FoundryCraftingCount s3)
                          (planetHash foundry' :=
                             \<lparr>count = c, lastCraftTime = blockTimestamp env mod 2 ^ 64\<rparr>),
                        CounterArtifact := unat artifactId mod 2 ^ 24\<rparr>))))))))))"

definition executeCrafting_spaceship ::
  "Env \<Rightarrow> World \<Rightarrow> Planet \<Rightarrow> nat \<Rightarrow> nat \<Rightarrow> MaterialType list \<Rightarrow> nat list \<Rightarrow> nat
     \<Rightarrow> Errors + World" where
  "executeCrafting_spaceship env s foundry0 executor spaceshipType materials amounts biome0 =
     and_then (consumeMaterials foundry0 materials amounts) (\<lambda>foundry.
       let craftingData = FoundryCraftingCount s (planetHash foundry) in
       and_then (calculateSpaceshipRarity (level foundry) (craftSeed env)) (\<lambda>rarity.
       and_then (calculateBiomeFromPlanet env s foundry) (\<lambda>calculatedBiome.
         let biome = (if biome0 = 0 \<or> biome0 > BIOME_MAX then calculatedBiome else biome0);
             artifactId = newArtifactId env
         in
         and_then (calculateShipAttackBonus biome rarity spaceshipType) (\<lambda>ab.
         and_then (calculateShipDefenseBonus biome rarity spaceshipType) (\<lambda>db.
         and_then (calculateShipSpeedBonus biome rarity spaceshipType) (\<lambda>sb.
         and_then (calculateShipRangeBonus biome rarity spaceshipType) (\<lambda>rb.
           let s1 = s\<lparr>CraftedSpaceship := (CraftedSpaceship s)(artifactId :=
                         \<lparr>cs_spaceshipType = spaceshipType, cs_biome = biome,
                          cs_rarity = rarity,
                          cs_craftedAt = blockTimestamp env mod 2 ^ 64,
                          cs_nftTokenId = 0, cs_crafter = executor\<rparr>),
                       SpaceshipBonus := (SpaceshipBonus s)(artifactId :=
                         \<lparr>attackBonus = ab, defenseBonus = db, speedBonus = sb,
                          rangeBonus = rb\<rparr>)\<rparr>;
               s2 = writeArtifact artifactId 3 rarity s1
           in
           and_then (pushArtifact env foundry artifactId) (\<lambda>foundry'.
             let s3 = writeToStore foundry' s2 in
             and_then (checked_add UINT8_MAX (count craftingData) 1) (\<lambda>c.
               Inr (s3\<lparr>FoundryCraftingCount := (FoundryCraftingCount s3)
                          (planetHash foundry' :=
                             \<lparr>count = c, lastCraftTime = blockTimestamp env mod 2 ^ 64\<rparr>),
                        CounterArtifact := unat artifactId mod 2 ^ 24\<rparr>))))))))))"

text \<open>
  \<open>craftModule\<close> with \<open>_processModuleCrafting\<close>, and \<open>craftSpaceship\<close> with
  \<open>_processSpaceshipCrafting\<close>. The biome argument has the enumeration type
  \<open>Biome\<close>: a call whose biome is not one of its 11 values reverts while the arguments
  are decoded, before any statement of the system runs. The biome is kept here as its
  \<open>uint8\<close> value, so the decoding is written out as the first test. The statistics
  counters of \<open>_updateStats\<close>, the clock of \<open>DFUtils.tick\<close> and the modifiers of
  \<open>BaseSystem\<close> touch none of the tables above.
\<close>

definition processModuleCrafting ::
  "Env \<Rightarrow> World \<Rightarrow> nat \<Rightarrow> nat \<Rightarrow> MaterialType list \<Rightarrow> nat list \<Rightarrow> nat \<Rightarrow> Errors + World" where
  "processModuleCrafting env s foundryHash moduleType materials amounts biome =
     (if biome > BIOME_MAX then Inl AbiDecodingFailed
      else
        let foundry = readInitedPlanet s foundryHash;
            executor = msgSender env
        in and_then (validateModuleCrafting s foundry executor moduleType materials amounts)
             (\<lambda>u. executeCrafting_module env s foundry executor moduleType materials amounts
                     biome))"

definition processSpaceshipCrafting ::
  "Env \<Rightarrow> World \<Rightarrow> nat \<Rightarrow> nat \<Rightarrow> MaterialType list \<Rightarrow> nat list \<Rightarrow> nat \<Rightarrow> Errors + World" where
  "processSpaceshipCrafting env s foundryHash spaceshipType materials amounts biome =
     (if biome > BIOME_MAX then Inl AbiDecodingFailed
      else
        let foundry = readInitedPlanet s foundryHash;
            executor = msgSender env
        in and_then (validateCrafting s foundry executor spaceshipType materials amounts)
             (\<lambda>u. executeCrafting_spaceship env s foundry executor spaceshipType materials
                     amounts biome))"

section \<open>FoundryUpgradeSystem\<close>

definition BASE_UPGRADE_FEE_LEVEL_1 :: nat where
  "BASE_UPGRADE_FEE_LEVEL_1 = 50000000000000"

definition BASE_UPGRADE_FEE_LEVEL_2 :: nat where
  "BASE_UPGRADE_FEE_LEVEL_2 = 100000000000000"

definition validateUpgrade :: "World \<Rightarrow> Planet \<Rightarrow> nat \<Rightarrow> nat \<Rightarrow> Errors + unit" where
  "validateUpgrade s foundry executor foundryHash =
     (if owner foundry \<noteq> executor then Inl NotPlanetOwner
      else if planetType foundry \<noteq> FOUNDRY then Inl InvalidPlanetType
      else if level foundry < 4 then Inl PlanetLevelTooLow
      else
        let currentLevel = FoundryUpgrade s foundryHash
        in if currentLevel \<ge> 2 then Inl FoundryAtMaxUpgradeLevel else Inr ())"

definition getBiomeMultiplier :: "nat \<Rightarrow> nat" where
  "getBiomeMultiplier b =
     (if b \<ge> 1 \<and> b \<le> 3 then 100
      else if b \<ge> 4 \<and> b \<le> 6 then 150
      else if b \<ge> 7 \<and> b \<le> 9 then 200
      else if b = 10 then 250
      else 100)"

text \<open>
  Modelled from the spec: \<open>Planet.mustGetArtifact\<close> is not among the sources; the
  rarity of an artifact in the inventory is read from the artifact table.
\<close>

fun highestRarityLoop :: "World \<Rightarrow> u32 list \<Rightarrow> nat \<Rightarrow> nat" where
  "highestRarityLoop s [] maxRarity = maxRarity"
| "highestRarityLoop s (a # as) maxRarity =
     (let rarityMult = getRarityMultiplier (art_rarity (ArtifactTable s a))
      in highestRarityLoop s as (if rarityMult > maxRarity then rarityMult else maxRarity))"

definition getHighestArtifactRarityMultiplier :: "World \<Rightarrow> Planet \<Rightarrow> nat" where
  "getHighestArtifactRarityMultiplier s foundry =
     highestRarityLoop s (artifactStorage foundry) 100"

definition upgradeFoundry :: "Env \<Rightarrow> World \<Rightarrow> nat \<Rightarrow> Errors + World" where
  "upgradeFoundry env s foundryHash =
     (let foundry = readInitedPlanet s foundryHash;
          executor = msgSender env
      in and_then (validateUpgrade s foundry executor foundryHash) (\<lambda>u.
           let currentLevel = FoundryUpgrade s foundryHash;
               baseFee = (if currentLevel = 0 then BASE_UPGRADE_FEE_LEVEL_1
                          else BASE_UPGRADE_FEE_LEVEL_2)
           in
           and_then (calculateBiomeFromPlanet env s foundry) (\<lambda>b.
             let biomeMultiplier = getBiomeMultiplier b;
                 rarityMultiplier = getHighestArtifactRarityMultiplier s foundry;
                 totalFee = (baseFee * biomeMultiplier * rarityMultiplier) div 10000
             in
             and_then (checked_add UINT256_MAX (EntryFee s) totalFee) (\<lambda>totalRequired.
               if msgValue env < totalRequired
               then Inl (InsufficientFoundryUpgradeFee totalRequired (msgValue env))
               else
                 and_then (checked_add UINT256_MAX (RevenueStats s) (msgValue env)) (\<lambda>rev.
                 and_then (checked_add UINT8_MAX currentLevel 1) (\<lambda>newLevel.
                   Inr (writeToStore foundry
                          (s\<lparr>RevenueStats := rev,
                             FoundryUpgrade := (FoundryUpgrade s)(foundryHash := newLevel)\<rparr>))))))))"

section \<open>ModuleSlotManager and BonusAggregator (\<open>SpaceshipModuleSystem\<close>)\<close>

definition ENGINES_SLOT :: nat where "ENGINES_SLOT = 1"
definition WEAPONS_SLOT :: nat where "WEAPONS_SLOT = 2"
definition HULL_SLOT :: nat where "HULL_SLOT = 3"
definition SHIELD_SLOT :: nat where "SHIELD_SLOT = 4"

definition getSlotIndexForSlotType :: "nat \<Rightarrow> Errors + nat" where
  "getSlotIndexForSlotType slotType =
     (if slotType = ENGINES_SLOT then Inr 1
      else if slotType = WEAPONS_SLOT then Inr 2
      else if slotType = HULL_SLOT \<or> slotType = SHIELD_SLOT then Inr 3
      else Inl InvalidModuleType)"

definition getSlotTypeForModuleType :: "nat \<Rightarrow> Errors + nat" where
  "getSlotTypeForModuleType moduleType =
     (if moduleType = 1 then Inr ENGINES_SLOT
      else if moduleType = 2 then Inr WEAPONS_SLOT
      else if moduleType = 3 then Inr HULL_SLOT
      else if moduleType = 4 then Inr SHIELD_SLOT
      else Inl InvalidModuleType)"

definition getModuleLimit :: "nat \<Rightarrow> nat \<Rightarrow> Errors + nat" where
  "getModuleLimit spaceshipType slotType =
     (if spaceshipType = 1 then
        (if slotType = ENGINES_SLOT then Inr 1
         else if slotType = WEAPONS_SLOT then Inr 1
         else if slotType = HULL_SLOT then Inr 1
         else if slotType = SHIELD_SLOT then Inr 1
         else Inl InvalidSpaceshipType)
      else if spaceshipType = 2 then
        (if slotType = ENGINES_SLOT then Inr 2
         else if slotType = WEAPONS_SLOT then Inr 2
         else if slotType = HULL_SLOT then Inr 2
         else if slotType = SHIELD_SLOT then Inr 2
         else Inl InvalidSpaceshipType)
      else if spaceshipType = 3 then
        (if slotType = ENGINES_SLOT then Inr 3
         else if slotType = WEAPONS_SLOT then Inr 4
         else if slotType = HULL_SLOT then Inr 2
         else if slotType = SHIELD_SLOT then Inr 2
         else Inl InvalidSpaceshipType)
      else if spaceshipType = 4 then
        (if slotType = ENGINES_SLOT then Inr 4
         else if slotType = WEAPONS_SLOT then Inr 2
         else if slotType = HULL_SLOT then Inr 4
         else if slotType = SHIELD_SLOT then Inr 4
         else Inl InvalidSpaceshipType)
      else Inl InvalidSpaceshipType)"

definition countInstalledModules :: "World \<Rightarrow> u32 \<Rightarrow> nat \<Rightarrow> Errors + nat" where
  "countInstalledModules s spaceshipId slotType =
     and_then (getSlotIndexForSlotType slotType) (\<lambda>slotIndex.
       let slot = SpaceshipSlot s (spaceshipId, slotIndex)
       in if slot_moduleId slot > 0 \<and> slot_moduleSlotType slot = slotType
          then Inr 1 else Inr 0)"

subsection \<open>Install\<close>

definition validateInstallModule ::
  "World \<Rightarrow> Planet \<Rightarrow> nat \<Rightarrow> u32 \<Rightarrow> u32 \<Rightarrow> Errors + unit" where
  "validateInstallModule s planet executor spaceshipId moduleId =
     (if owner planet \<noteq> executor then Inl NotPlanetOwner
      else if ArtifactOwner s spaceshipId = 0 then Inl ArtifactNotOnPlanet1
      else if ArtifactOwner s spaceshipId \<noteq> planetHash planet then Inl ArtifactNotOnPlanet1
      else if artifactIndex (ArtifactTable s spaceshipId) \<noteq> 3
        then Inl InvalidSpaceshipArtifact
      else if ArtifactOwner s moduleId = 0 then Inl ArtifactNotOnPlanet2
      else if ArtifactOwner s moduleId \<noteq> planetHash planet then Inl ArtifactNotOnPlanet2
      else if artifactIndex (ArtifactTable s moduleId) \<noteq> 23 then Inl InvalidModuleArtifact
      else
        let installed = SpaceshipModuleInstalled s moduleId
        in if inst_installed installed \<and> inst_artifactId installed > 0
              \<and> inst_artifactId installed \<noteq> spaceshipId
           then Inl ModuleAlreadyInstalled
           else
             let spaceshipData = CraftedSpaceship s spaceshipId
             in if cs_spaceshipType spaceshipData = 0 then Inl InvalidSpaceshipArtifact
                else
                  let moduleData = CraftedModules s moduleId
                  in if cm_moduleType moduleData = 0 then Inl InvalidModuleArtifact
                     else
                       and_then (getSlotTypeForModuleType (cm_moduleType moduleData))
                         (\<lambda>slotType.
                       and_then (getSlotIndexForSlotType slotType) (\<lambda>slotIndex.
                         let slot = SpaceshipSlot s (spaceshipId, slotIndex)
                         in if slot_moduleId slot > 0 then
                              (if slot_moduleId slot = moduleId then Inr ()
                               else if slot_moduleSlotType slot = slotType then
                                 and_then (countInstalledModules s spaceshipId slotType)
                                   (\<lambda>currentCount.
                                 and_then (getModuleLimit (cs_spaceshipType spaceshipData)
                                             slotType) (\<lambda>limit.
                                   if currentCount \<ge> limit then Inl ModuleSlotFull
                                   else Inr ()))
                               else Inr ())
                            else Inr ())))"

text \<open>The four bonus sums of \<open>_executeInstallModule\<close> are checked \<open>uint16\<close> additions.\<close>

definition addBonuses :: "BonusData \<Rightarrow> BonusData \<Rightarrow> Errors + BonusData" where
  "addBonuses spaceshipBonuses newModuleBonuses =
     and_then (checked_add UINT16_MAX (attackBonus spaceshipBonuses)
                 (attackBonus newModuleBonuses)) (\<lambda>newAttackBonus.
     and_then (checked_add UINT16_MAX (defenseBonus spaceshipBonuses)
                 (defenseBonus newModuleBonuses)) (\<lambda>newDefenseBonus.
     and_then (checked_add UINT16_MAX (speedBonus spaceshipBonuses)
                 (speedBonus newModuleBonuses)) (\<lambda>newSpeedBonus.
     and_then (checked_add UINT16_MAX (rangeBonus spaceshipBonuses)
                 (rangeBonus newModuleBonuses)) (\<lambda>newRangeBonus.
       Inr \<lparr>attackBonus = newAttackBonus, defenseBonus = newDefenseBonus,
            speedBonus = newSpeedBonus, rangeBonus = newRangeBonus\<rparr>))))"

definition executeInstallModule :: "World \<Rightarrow> u32 \<Rightarrow> u32 \<Rightarrow> Planet \<Rightarrow> Errors + World" where
  "executeInstallModule s spaceshipId moduleId planet =
     (let moduleData = CraftedModules s moduleId in
      and_then (getSlotTypeForModuleType (cm_moduleType moduleData)) (\<lambda>slotType.
      and_then (getSlotIndexForSlotType slotType) (\<lambda>slotIndex.
        let s1 = s\<lparr>SpaceshipSlot := (SpaceshipSlot s)((spaceshipId, slotIndex) :=
                      \<lparr>slot_moduleSlotType = slotType, slot_moduleId = moduleId\<rparr>),
                    SpaceshipModuleInstalled := (SpaceshipModuleInstalled s)(moduleId :=
                      \<lparr>inst_artifactId = spaceshipId, inst_moduleSlotType = slotType,
                       inst_installed = True\<rparr>)\<rparr>;
            spaceshipBonuses = SpaceshipBonus s1 spaceshipId;
            newModuleBonuses = ModuleBonus s1 moduleId
        in
        and_then (addBonuses spaceshipBonuses newModuleBonuses) (\<lambda>newBonuses.
          let s2 = s1\<lparr>SpaceshipBonus := (SpaceshipBonus s1)(spaceshipId := newBonuses)\<rparr> in
          and_then (removeArtifact planet moduleId) (\<lambda>planet'.
            let s3 = writeToStore planet' s2
            in Inr (s3\<lparr>ArtifactOwner := (ArtifactOwner s3)(moduleId := 0)\<rparr>))))))"

definition processInstallModule :: "Env \<Rightarrow> World \<Rightarrow> u32 \<Rightarrow> u32 \<Rightarrow> nat \<Rightarrow> Errors + World" where
  "processInstallModule env s spaceshipId moduleId planetHash' =
     (let planet = readInitedPlanet s planetHash';
          executor = msgSender env
      in and_then (validateInstallModule s planet executor spaceshipId moduleId)
           (\<lambda>u. executeInstallModule s spaceshipId moduleId planet))"

subsection \<open>Uninstall\<close>

definition validateUninstallModule ::
  "World \<Rightarrow> Planet \<Rightarrow> nat \<Rightarrow> u32 \<Rightarrow> u32 \<Rightarrow> Errors + unit" where
  "validateUninstallModule s planet executor spaceshipId moduleId =
     (if owner planet \<noteq> executor then Inl NotPlanetOwner
      else if spaceshipId \<notin> set (artifactStorage planet) then Inl ArtifactNotOnPlanet3
      else
        let installed = SpaceshipModuleInstalled s moduleId
        in if inst_artifactId installed \<noteq> spaceshipId then Inl ModuleNotInstalled
           else Inr ())"

definition subBonuses :: "BonusData \<Rightarrow> BonusData \<Rightarrow> BonusData" where
  "subBonuses spaceshipBonuses moduleBonuses =
     \<lparr>attackBonus = (if attackBonus spaceshipBonuses \<ge> attackBonus moduleBonuses
                     then attackBonus spaceshipBonuses - attackBonus moduleBonuses else 0),
      defenseBonus = (if defenseBonus spaceshipBonuses \<ge> defenseBonus moduleBonuses
                      then defenseBonus spaceshipBonuses - defenseBonus moduleBonuses else 0),
      speedBonus = (if speedBonus spaceshipBonuses \<ge> speedBonus moduleBonuses
                    then speedBonus spaceshipBonuses - speedBonus moduleBonuses else 0),
      rangeBonus = (if rangeBonus spaceshipBonuses \<ge> rangeBonus moduleBonuses
                    then rangeBonus spaceshipBonuses - rangeBonus moduleBonuses else 0)\<rparr>"

definition executeUninstallModule ::
  "Env \<Rightarrow> World \<Rightarrow> u32 \<Rightarrow> u32 \<Rightarrow> Planet \<Rightarrow> Errors + World" where
  "executeUninstallModule env s spaceshipId moduleId planet =
     (let installed = SpaceshipModuleInstalled s moduleId;
          slotType = inst_moduleSlotType installed;
          spaceshipBonuses = SpaceshipBonus s spaceshipId;
          moduleBonuses = ModuleBonus s moduleId;
          s1 = s\<lparr>SpaceshipBonus := (SpaceshipBonus s)(spaceshipId :=
                    subBonuses spaceshipBonuses moduleBonuses)\<rparr>
      in
      and_then (getSlotIndexForSlotType slotType) (\<lambda>slotIndex.
        let s2 = s1\<lparr>SpaceshipSlot := (SpaceshipSlot s1)((spaceshipId, slotIndex) :=
                       \<lparr>slot_moduleSlotType = slotType, slot_moduleId = 0\<rparr>),
                     SpaceshipModuleInstalled := (SpaceshipModuleInstalled s1)(moduleId :=
                       \<lparr>inst_artifactId = 0, inst_moduleSlotType = 0,
                        inst_installed = False\<rparr>)\<rparr>
        in if \<not> hasArtifactSlot env planet then Inl ArtifactStorageFull
           else and_then (pushArtifact env planet moduleId) (\<lambda>planet'.
                  Inr (writeToStore planet' s2))))"

definition processUninstallModule ::
  "Env \<Rightarrow> World \<Rightarrow> u32 \<Rightarrow> u32 \<Rightarrow> nat \<Rightarrow> Errors + World" where
  "processUninstallModule env s spaceshipId moduleId planetHash' =
     (let planet = readInitedPlanet s planetHash';
          executor = msgSender env
      in and_then (validateUninstallModule s planet executor spaceshipId moduleId)
           (\<lambda>u. executeUninstallModule env s spaceshipId moduleId planet))"

section \<open>Notions of the specification\<close>

subsection \<open>Crafting\<close>

definition ceil_div :: "nat \<Rightarrow> nat \<Rightarrow> nat" where
  "ceil_div n d = (n + d - 1) div d"

text \<open>The amount that a craft request supplies for a resource kind.\<close>

definition suppliedAmount :: "MaterialType list \<Rightarrow> nat list \<Rightarrow> MaterialType \<Rightarrow> nat option" where
  "suppliedAmount materials amounts k = map_of (zip materials amounts) k"

definition balance :: "World \<Rightarrow> nat \<Rightarrow> MaterialType \<Rightarrow> nat" where
  "balance s h k = getMaterial (planets s h) k"

definition craftCount :: "World \<Rightarrow> nat \<Rightarrow> nat" where
  "craftCount s h = count (FoundryCraftingCount s h)"

definition upgradeTier :: "World \<Rightarrow> nat \<Rightarrow> nat" where
  "upgradeTier s h = FoundryUpgrade s h"

text \<open>The capacity invariant of a station, for every station at once.\<close>

definition craft_limit_inv :: "World \<Rightarrow> bool" where
  "craft_limit_inv s =
     (\<forall>h. craftCount s h \<le> 1 + upgradeTier s h \<and> upgradeTier s h \<le> 2)"

datatype FoundryOp =
    CraftModule nat nat "MaterialType list" "nat list" nat
  | CraftSpaceship nat nat "MaterialType list" "nat list" nat
  | UpgradeFoundry nat

fun foundryStep :: "Env \<Rightarrow> World \<Rightarrow> FoundryOp \<Rightarrow> Errors + World" where
  "foundryStep env s (CraftModule h t ms as b) = processModuleCrafting env s h t ms as b"
| "foundryStep env s (CraftSpaceship h t ms as b) = processSpaceshipCrafting env s h t ms as b"
| "foundryStep env s (UpgradeFoundry h) = upgradeFoundry env s h"

text \<open>A history of requests; a rejected request leaves the state as it was.\<close>

fun foundryRun :: "World \<Rightarrow> (Env \<times> FoundryOp) list \<Rightarrow> World" where
  "foundryRun s [] = s"
| "foundryRun s ((env, op) # rest) =
     foundryRun (case foundryStep env s op of Inl e \<Rightarrow> s | Inr s' \<Rightarrow> s') rest"

subsection \<open>Equipment\<close>

datatype Axis = Attack | Defense | Speed | Range

fun axisValue :: "Axis \<Rightarrow> BonusData \<Rightarrow> nat" where
  "axisValue Attack b = attackBonus b"
| "axisValue Defense b = defenseBonus b"
| "axisValue Speed b = speedBonus b"
| "axisValue Range b = rangeBonus b"

text \<open>
  The modules recorded as installed on a carrier are the rows of
  \<open>SpaceshipModuleInstalled\<close> with the flag set and the carrier's id, which is also what
  the client lists for the carrier.
\<close>

definition installedOn :: "World \<Rightarrow> u32 \<Rightarrow> u32 set" where
  "installedOn s c =
     {m. inst_installed (SpaceshipModuleInstalled s m)
         \<and> inst_artifactId (SpaceshipModuleInstalled s m) = c}"

definition installedInCategory :: "World \<Rightarrow> u32 \<Rightarrow> nat \<Rightarrow> u32 set" where
  "installedInCategory s c slotType =
     {m. inst_installed (SpaceshipModuleInstalled s m)
         \<and> inst_artifactId (SpaceshipModuleInstalled s m) = c
         \<and> inst_moduleSlotType (SpaceshipModuleInstalled s m) = slotType}"

definition moduleBonusTotal :: "Axis \<Rightarrow> World \<Rightarrow> u32 \<Rightarrow> nat" where
  "moduleBonusTotal ax s c = (\<Sum>m \<in> installedOn s c. axisValue ax (ModuleBonus s m))"

text \<open>The aggregate of a carrier is the sum over its installed modules, as the claim has it.\<close>

definition aggregate_is_module_sum :: "u32 \<Rightarrow> World \<Rightarrow> bool" where
  "aggregate_is_module_sum c s =
     (\<forall>ax. axisValue ax (SpaceshipBonus s c) = moduleBonusTotal ax s c)"

text \<open>
  The aggregate of every carrier is a fixed bonus of its own, \<open>own c\<close>, plus the sum over
  its installed modules.
\<close>

definition bonus_inv :: "(u32 \<Rightarrow> BonusData) \<Rightarrow> World \<Rightarrow> bool" where
  "bonus_inv own s =
     (\<forall>c ax. axisValue ax (SpaceshipBonus s c)
              = axisValue ax (own c) + moduleBonusTotal ax s c)"

text \<open>
  The location of a module is one of station and carrier: an installed module has no
  owner record, a row without the flag is the zero row, a station's inventory has no
  duplicates and owns what it holds, and no inventory is kept under the hash 0.
\<close>

definition location_inv :: "World \<Rightarrow> bool" where
  "location_inv s =
     ((\<forall>m. inst_installed (SpaceshipModuleInstalled s m) \<longrightarrow> ArtifactOwner s m = 0)
      \<and> (\<forall>m. \<not> inst_installed (SpaceshipModuleInstalled s m) \<longrightarrow>
              inst_artifactId (SpaceshipModuleInstalled s m) = 0
              \<and> inst_moduleSlotType (SpaceshipModuleInstalled s m) = 0)
      \<and> (\<forall>p a. a \<in> set (artifactStorage (planets s p)) \<longrightarrow> ArtifactOwner s a = p)
      \<and> (\<forall>p. distinct (artifactStorage (planets s p)))
      \<and> artifactStorage (planets s 0) = [])"

definition module_inv :: "(u32 \<Rightarrow> BonusData) \<Rightarrow> World \<Rightarrow> bool" where
  "module_inv own s = (location_inv s \<and> bonus_inv own s)"

datatype ModuleOp =
    InstallModule u32 u32 nat
  | UninstallModule u32 u32 nat

fun moduleStep :: "Env \<Rightarrow> World \<Rightarrow> ModuleOp \<Rightarrow> Errors + World" where
  "moduleStep env s (InstallModule c m h) = processInstallModule env s c m h"
| "moduleStep env s (UninstallModule c m h) = processUninstallModule env s c m h"

text \<open>A sequence of equipment requests that stops at the first rejection.\<close>

fun moduleRun :: "Env \<Rightarrow> World \<Rightarrow> ModuleOp list \<Rightarrow> Errors + World" where
  "moduleRun env s [] = Inr s"
| "moduleRun env s (op # ops) = and_then (moduleStep env s op) (\<lambda>s'. moduleRun env s' ops)"

subsection \<open>Observing the result of an operation\<close>

definition holds_after :: "(World \<Rightarrow> bool) \<Rightarrow> Errors + World \<Rightarrow> Errors + bool" where
  "holds_after P r = (case r of Inl e \<Rightarrow> Inl e | Inr s \<Rightarrow> Inr (P s))"

definition balance_after :: "nat \<Rightarrow> MaterialType \<Rightarrow> Errors + World \<Rightarrow> Errors + nat" where
  "balance_after h k r = (case r of Inl e \<Rightarrow> Inl e | Inr s \<Rightarrow> Inr (balance s h k))"

definition installed_row_after ::
  "u32 \<Rightarrow> Errors + World \<Rightarrow> Errors + SpaceshipModuleInstalledData" where
  "installed_row_after m r =
     (case r of Inl e \<Rightarrow> Inl e | Inr s \<Rightarrow> Inr (SpaceshipModuleInstalled s m))"

definition category_count_after :: "u32 \<Rightarrow> nat \<Rightarrow> Errors + World \<Rightarrow> Errors + nat" where
  "category_count_after c slotType r =
     (case r of Inl e \<Rightarrow> Inl e | Inr s \<Rightarrow> Inr (card (installedInCategory s c slotType)))"

section \<open>Example states\<close>

definition zero_bonus :: BonusData where
  "zero_bonus = \<lparr>attackBonus = 0, defenseBonus = 0, speedBonus = 0, rangeBonus = 0\<rparr>"

definition empty_planet :: Planet where
  "empty_planet =
     \<lparr>planetHash = 0, owner = 0, planetType = UNKNOWN_PLANET, level = 0,
      spaceType = UNKNOWN_SPACE, perlin = 0, materialStorage = (\<lambda>k. 0),
      artifactStorage = []\<rparr>"

definition empty_world :: World where
  "empty_world =
     \<lparr>planets = (\<lambda>h. empty_planet), threshold1 = 300, threshold2 = 600,
      FoundryCraftingCount = (\<lambda>h. \<lparr>count = 0, lastCraftTime = 0\<rparr>),
      FoundryUpgrade = (\<lambda>h. 0),
      CraftedModules = (\<lambda>a. \<lparr>cm_moduleType = 0, cm_biome = 0, cm_rarity = UNKNOWN,
                              cm_craftedAt = 0, cm_crafter = 0\<rparr>),
      CraftedSpaceship = (\<lambda>a. \<lparr>cs_spaceshipType = 0, cs_biome = 0, cs_rarity = UNKNOWN,
                                cs_craftedAt = 0, cs_nftTokenId = 0, cs_crafter = 0\<rparr>),
      ModuleBonus = (\<lambda>a. zero_bonus),
      SpaceshipBonus = (\<lambda>a. zero_bonus),
      SpaceshipSlot = (\<lambda>k. \<lparr>slot_moduleSlotType = 0, slot_moduleId = 0\<rparr>),
      SpaceshipModuleInstalled =
        (\<lambda>a. \<lparr>inst_artifactId = 0, inst_moduleSlotType = 0, inst_installed = False\<rparr>),
      ArtifactTable = (\<lambda>a. \<lparr>artifactIndex = 0, art_rarity = UNKNOWN\<rparr>),
      ArtifactOwner = (\<lambda>a. 0),
      CounterArtifact = 0, EntryFee = 0, RevenueStats = 0\<rparr>"

text \<open>
  A level 4 foundry in a nebula, hash 1, owned by player 7, stocked with resources, with
  no craft yet and no upgrade.
\<close>

definition stocked_foundry :: Planet where
  "stocked_foundry =
     \<lparr>planetHash = 1, owner = 7, planetType = FOUNDRY, level = 4, spaceType = NEBULA,
      perlin = 0, materialStorage = (\<lambda>k. 1000000), artifactStorage = []\<rparr>"

definition foundry_world :: World where
  "foundry_world = empty_world\<lparr>planets := (\<lambda>h. empty_planet)(1 := stocked_foundry)\<rparr>"

text \<open>The same foundry after its only craft of tier 0.\<close>

definition used_foundry_world :: World where
  "used_foundry_world =
     foundry_world\<lparr>FoundryCraftingCount :=
       (\<lambda>h. \<lparr>count = 0, lastCraftTime = 0\<rparr>)(1 := \<lparr>count = 1, lastCraftTime = 1000\<rparr>)\<rparr>"

definition owner_env :: Env where
  "owner_env =
     \<lparr>msgSender = 7, msgValue = 0, blockTimestamp = 1000, craftSeed = 0xffffff,
      biomeHash = (\<lambda>p q. 0), newArtifactId = 9, maxArtifacts = 8\<rparr>"

definition stranger_env :: Env where
  "stranger_env = owner_env\<lparr>msgSender := 8\<rparr>"

text \<open>
  A planet, hash 1, of player 7 that holds two crafted spaceships, a Fighter (id 1) and a
  Scout (id 5), and three crafted Engine modules (ids 2, 3 and 4), none installed.
\<close>

definition engine_bonus :: BonusData where
  "engine_bonus = \<lparr>attackBonus = 0, defenseBonus = 0, speedBonus = 9, rangeBonus = 4\<rparr>"

definition engine_row :: CraftedModulesData where
  "engine_row = \<lparr>cm_moduleType = 1, cm_biome = 1, cm_rarity = COMMON, cm_craftedAt = 900,
                 cm_crafter = 7\<rparr>"

definition hangar_planet :: Planet where
  "hangar_planet = stocked_foundry\<lparr>artifactStorage := [1, 2, 3, 4, 5]\<rparr>"

definition hangar_world :: World where
  "hangar_world =
     empty_world
       \<lparr>planets := (\<lambda>h. empty_planet)(1 := hangar_planet),
        CraftedModules := (CraftedModules empty_world)
          (2 := engine_row, 3 := engine_row, 4 := engine_row),
        CraftedSpaceship := (CraftedSpaceship empty_world)
          (1 := \<lparr>cs_spaceshipType = 2, cs_biome = 1, cs_rarity = COMMON, cs_craftedAt = 900,
                 cs_nftTokenId = 0, cs_crafter = 7\<rparr>,
           5 := \<lparr>cs_spaceshipType = 1, cs_biome = 1, cs_rarity = COMMON, cs_craftedAt = 900,
                 cs_nftTokenId = 0, cs_crafter = 7\<rparr>),
        ModuleBonus := (\<lambda>a. zero_bonus)(2 := engine_bonus, 3 := engine_bonus, 4 := engine_bonus),
        SpaceshipBonus := (\<lambda>a. zero_bonus)
          (1 := \<lparr>attackBonus = 6, defenseBonus = 6, speedBonus = 0, rangeBonus = 6\<rparr>,
           5 := \<lparr>attackBonus = 0, defenseBonus = 0, speedBonus = 11, rangeBonus = 6\<rparr>),
        ArtifactTable := (ArtifactTable empty_world)
          (1 := \<lparr>artifactIndex = 3, art_rarity = COMMON\<rparr>,
           2 := \<lparr>artifactIndex = 23, art_rarity = COMMON\<rparr>,
           3 := \<lparr>artifactIndex = 23, art_rarity = COMMON\<rparr>,
           4 := \<lparr>artifactIndex = 23, art_rarity = COMMON\<rparr>,
           5 := \<lparr>artifactIndex = 3, art_rarity = COMMON\<rparr>),
        ArtifactOwner := (\<lambda>a. 0)(1 := 1, 2 := 1, 3 := 1, 4 := 1, 5 := 1)\<rparr>"

section \<open>Basic facts\<close>

lemma and_then_simps [simp]:
  "and_then (Inl e) f = Inl e"
  "and_then (Inr v) f = f v"
  by (simp_all add: and_then_def)

lemma and_then_Inr_iff: "and_then r f = Inr y \<longleftrightarrow> (\<exists>v. r = Inr v \<and> f v = Inr y)"
  by (cases r) simp_all

section \<open>Rarity\<close>

text \<open>
  C8. The rarity of a crafted item is a function of the seed and the station level, the
  same function in both crafting systems: with the slice \<open>seed & 0xfff000\<close>, the
  effective level is the level plus 2 below \<open>0x40000\<close>, plus 1 below \<open>0x100000\<close>, and
  the level otherwise; the rarity is Common up to effective level 1, Rare up to 3, Epic up
  to 5, Legendary up to 7 and Mythic above. The level is any value for which the checked
  addition of 2 stays within \<open>uint256\<close>.
\<close>

theorem rarity_roll:
  assumes "planetLevel + 2 \<le> UINT256_MAX"
  shows "calculateModuleRarity planetLevel seed
           = Inr (rarity_of_level (effective_level seed planetLevel))
       \<and> calculateSpaceshipRarity planetLevel seed
           = Inr (rarity_of_level (effective_level seed planetLevel))"
  using assms
  by (simp add: calculateModuleRarity_def calculateSpaceshipRarity_def rarity_of_level_def
      effective_level_def rarity_slice_def checked_add_def Let_def)

theorem rarity_roll_witness:
  "(4::nat) + 2 \<le> UINT256_MAX
   \<and> calculateModuleRarity 4 0 = Inr LEGENDARY
   \<and> calculateSpaceshipRarity 4 0x50000 = Inr EPIC"
  using rarity_roll [of 4 0] rarity_roll [of 4 "0x50000"]
  by (simp add: UINT256_MAX_def rarity_of_level_def effective_level_def rarity_slice_def)

section \<open>Bonuses\<close>

lemma getBiomeBonus_le: "getBiomeBonus b \<le> 8"
  by (simp add: getBiomeBonus_def)

lemma getRarityMultiplier_le: "getRarityMultiplier r \<le> 300"
  by (simp add: getRarityMultiplier_def)

text \<open>No bonus computation leaves \<open>uint16\<close>: the product is at most 23 times 300.\<close>

lemma scaledBonus_small:
  assumes "b \<le> 8" "r \<le> 15" "m \<le> 300"
  shows "scaledBonus b r m d = Inr (((b + r) * m) div d)"
proof -
  have "(b + r) * m \<le> 23 * 300"
    using assms by (intro mult_mono) auto
  then show ?thesis
    using assms by (simp add: scaledBonus_def checked_add_def checked_mul_def UINT16_MAX_def)
qed

lemma module_role_le:
  "getModuleRoleAttackBonus t \<le> 15" "getModuleRoleDefenseBonus t \<le> 15"
  "getModuleRoleSpeedBonus t \<le> 15" "getModuleRoleRangeBonus t \<le> 15"
  by (simp_all add: getModuleRoleAttackBonus_def getModuleRoleDefenseBonus_def
      getModuleRoleSpeedBonus_def getModuleRoleRangeBonus_def)

lemma ship_role_le:
  "getSpaceshipRoleAttackBonus t \<le> 15" "getSpaceshipRoleDefenseBonus t \<le> 15"
  "getSpaceshipRoleSpeedBonus t \<le> 15" "getSpaceshipRoleRangeBonus t \<le> 15"
  by (simp_all add: getSpaceshipRoleAttackBonus_def getSpaceshipRoleDefenseBonus_def
      getSpaceshipRoleSpeedBonus_def getSpaceshipRoleRangeBonus_def)

lemma module_bonus_eq:
  "calculateAttackBonus b r t = Inr (spec_bonus_floor (getBiomeBonus b)
     (getModuleRoleAttackBonus t) (getRarityMultiplier r) 400)"
  "calculateDefenseBonus b r t = Inr (spec_bonus_floor (getBiomeBonus b)
     (getModuleRoleDefenseBonus t) (getRarityMultiplier r) 100)"
  "calculateSpeedBonus b r t = Inr (spec_bonus_floor (getBiomeBonus b)
     (getModuleRoleSpeedBonus t) (getRarityMultiplier r) 100)"
  "calculateRangeBonus b r t = Inr (spec_bonus_floor (getBiomeBonus b)
     (getModuleRoleRangeBonus t) (getRarityMultiplier r) 100)"
  by (simp_all add: calculateAttackBonus_def calculateDefenseBonus_def
      calculateSpeedBonus_def calculateRangeBonus_def spec_bonus_floor_def Let_def
      scaledBonus_small [OF getBiomeBonus_le _ getRarityMultiplier_le] module_role_le)

lemma ship_bonus_eq:
  "calculateShipAttackBonus b r t = Inr (spec_bonus_floor (getBiomeBonus b)
     (getSpaceshipRoleAttackBonus t) (getRarityMultiplier r) 100)"
  "calculateShipDefenseBonus b r t = Inr (spec_bonus_floor (getBiomeBonus b)
     (getSpaceshipRoleDefenseBonus t) (getRarityMultiplier r) 100)"
  "calculateShipSpeedBonus b r t = Inr (spec_bonus_floor (getBiomeBonus b)
     (getSpaceshipRoleSpeedBonus t) (getRarityMultiplier r) 100)"
  "calculateShipRangeBonus b r t = Inr (spec_bonus_floor (getBiomeBonus b)
     (getSpaceshipRoleRangeBonus t) (getRarityMultiplier r) 100)"
  by (simp_all add: calculateShipAttackBonus_def calculateShipDefenseBonus_def
      calculateShipSpeedBonus_def calculateShipRangeBonus_def spec_bonus_floor_def Let_def
      scaledBonus_small [OF getBiomeBonus_le _ getRarityMultiplier_le] ship_role_le)

text \<open>
  C7, as stated, fails: the contract divides with truncation and does not round. A Weapon
  module of biome 1 and rarity Rare has \<open>(1 + 8) * 120 / 400 = 2.7\<close>; the contract
  stores 2 where rounding gives 3.
\<close>

theorem bonus_round_counterexample:
  "calculateAttackBonus 1 RARE 2 = Inr 2
   \<and> getModuleRoleAttackBonus 2 \<noteq> 0
   \<and> spec_bonus_round (getBiomeBonus 1) (getModuleRoleAttackBonus 2)
        (getRarityMultiplier RARE) 400 = 3"
  by (simp add: calculateAttackBonus_def getBiomeBonus_def getModuleRoleAttackBonus_def
      getRarityMultiplier_def scaledBonus_def checked_add_def checked_mul_def UINT16_MAX_def
      spec_bonus_round_def round_div_def)

text \<open>
  C7, amended. For every biome, rarity and role, on each axis: the bonus is 0 when the
  role bonus of the axis is 0, whatever the biome; otherwise it is
  \<open>(biomeBonus + roleBonus) * rarityMultiplierPercent\<close> divided by \<open>D\<close> and truncated to
  an integer, where \<open>D\<close> is 400 for the attack axis of a module and 100 for every other
  axis of a module and for every axis of a spaceship. The biome bonus is 1 for the biomes
  1 to 3, 2 for 4 to 6, 4 for 7 to 9, 8 for 10, and 0 otherwise. An Engine module with
  biome bonus 1 at rarity Common has speed bonus 9 and attack bonus 0.
\<close>

theorem bonus_formula_truncates:
  "calculateAttackBonus b r t = Inr (spec_bonus_floor (getBiomeBonus b)
       (getModuleRoleAttackBonus t) (getRarityMultiplier r) 400)
   \<and> calculateDefenseBonus b r t = Inr (spec_bonus_floor (getBiomeBonus b)
       (getModuleRoleDefenseBonus t) (getRarityMultiplier r) 100)
   \<and> calculateSpeedBonus b r t = Inr (spec_bonus_floor (getBiomeBonus b)
       (getModuleRoleSpeedBonus t) (getRarityMultiplier r) 100)
   \<and> calculateRangeBonus b r t = Inr (spec_bonus_floor (getBiomeBonus b)
       (getModuleRoleRangeBonus t) (getRarityMultiplier r) 100)
   \<and> calculateShipAttackBonus b r t = Inr (spec_bonus_floor (getBiomeBonus b)
       (getSpaceshipRoleAttackBonus t) (getRarityMultiplier r) 100)
   \<and> calculateShipDefenseBonus b r t = Inr (spec_bonus_floor (getBiomeBonus b)
       (getSpaceshipRoleDefenseBonus t) (getRarityMultiplier r) 100)
   \<and> calculateShipSpeedBonus b r t = Inr (spec_bonus_floor (getBiomeBonus b)
       (getSpaceshipRoleSpeedBonus t) (getRarityMultiplier r) 100)
   \<and> calculateShipRangeBonus b r t = Inr (spec_bonus_floor (getBiomeBonus b)
       (getSpaceshipRoleRangeBonus t) (getRarityMultiplier r) 100)
   \<and> getBiomeBonus b =
       (if 1 \<le> b \<and> b \<le> 3 then 1 else if 4 \<le> b \<and> b \<le> 6 then 2
        else if 7 \<le> b \<and> b \<le> 9 then 4 else if b = 10 then 8 else 0)
   \<and> (getBiomeBonus b = 1 \<longrightarrow>
        calculateSpeedBonus b COMMON 1 = Inr 9 \<and> calculateAttackBonus b COMMON 1 = Inr 0)"
  by (simp add: module_bonus_eq ship_bonus_eq)
     (simp add: getBiomeBonus_def spec_bonus_floor_def getModuleRoleSpeedBonus_def
        getModuleRoleAttackBonus_def getRarityMultiplier_def)

theorem bonus_formula_truncates_witness:
  "getBiomeBonus 2 = 1
   \<and> calculateSpeedBonus 2 COMMON 1 = Inr 9 \<and> calculateAttackBonus 2 COMMON 1 = Inr 0
   \<and> calculateAttackBonus 1 RARE 2 = Inr 2"
  using bonus_formula_truncates [of 2 COMMON 1] bonus_formula_truncates [of 1 RARE 2]
  by (simp add: getBiomeBonus_def spec_bonus_floor_def getModuleRoleAttackBonus_def
      getModuleRoleSpeedBonus_def getRarityMultiplier_def)

section \<open>Crafting: what an operation changes\<close>

lemma consume_frame:
  "consumeMaterials f ms as = Inr f1 \<Longrightarrow> \<exists>st. f1 = f\<lparr>materialStorage := st\<rparr>"
proof (induction f ms as rule: consumeMaterials.induct)
  case (1 foundry amounts)
  then have "f1 = foundry\<lparr>materialStorage := materialStorage foundry\<rparr>" by simp
  then show ?case by blast
next
  case (2 foundry m ms)
  then show ?case by simp
next
  case (3 foundry m ms a as)
  from "3.prems" obtain scaled rest where
    c: "consumeMaterials (setMaterial foundry m rest) ms as = Inr f1"
    by (auto simp: and_then_Inr_iff Let_def)
  from "3.IH" [OF refl refl c] obtain st where
    "f1 = (setMaterial foundry m rest)\<lparr>materialStorage := st\<rparr>" by blast
  then have "f1 = foundry\<lparr>materialStorage := st\<rparr>" by (simp add: setMaterial_def)
  then show ?case by blast
qed

lemma push_frame:
  "pushArtifact env f a = Inr f2 \<Longrightarrow> f2 = f\<lparr>artifactStorage := artifactStorage f @ [a]\<rparr>"
  by (auto simp: pushArtifact_def split: if_splits)

lemma biome_frame [simp]:
  "calculateBiomeFromPlanet env s (f\<lparr>materialStorage := st\<rparr>) = calculateBiomeFromPlanet env s f"
  by (simp add: calculateBiomeFromPlanet_def)

lemma validate_module_ok:
  assumes "validateModuleCrafting s f ex t ms as = Inr u"
  shows "owner f = ex \<and> planetType f = FOUNDRY \<and> 4 \<le> level f \<and> 1 \<le> t \<and> t \<le> 4
     \<and> count (FoundryCraftingCount s (planetHash f)) < 1 + FoundryUpgrade s (planetHash f)
     \<and> validateModuleRecipe f t ms as
          (getCraftingMMultiplier (count (FoundryCraftingCount s (planetHash f)))) = Inr ()"
  using assms
  by (auto simp: validateModuleCrafting_def and_then_Inr_iff Let_def checked_add_def
      split: if_splits)

lemma validate_ship_ok:
  assumes "validateCrafting s f ex t ms as = Inr u"
  shows "owner f = ex \<and> planetType f = FOUNDRY \<and> 4 \<le> level f \<and> 1 \<le> t \<and> t \<le> 4
     \<and> count (FoundryCraftingCount s (planetHash f)) < 1 + FoundryUpgrade s (planetHash f)
     \<and> validateRecipe f t ms as
          (getCraftingMultiplier (count (FoundryCraftingCount s (planetHash f)))) = Inr ()"
  using assms
  by (auto simp: validateCrafting_def and_then_Inr_iff Let_def checked_add_def
      split: if_splits)


lemma checked_add_Inr: "checked_add bd a b = Inr c \<longleftrightarrow> (a + b \<le> bd \<and> c = a + b)"
  by (auto simp: checked_add_def)

lemma exec_module_tables:
  assumes "executeCrafting_module env s f ex t ms as b0 = Inr s'"
  shows "FoundryUpgrade s' = FoundryUpgrade s
     \<and> count (FoundryCraftingCount s' (planetHash f))
         = count (FoundryCraftingCount s (planetHash f)) + 1
     \<and> (\<forall>h. h \<noteq> planetHash f \<longrightarrow> FoundryCraftingCount s' h = FoundryCraftingCount s h)
     \<and> (\<exists>f1. consumeMaterials f ms as = Inr f1
           \<and> materialStorage (planets s' (planetHash f)) = materialStorage f1)
     \<and> (\<exists>calc. calculateBiomeFromPlanet env s f = Inr calc
           \<and> cm_biome (CraftedModules s' (newArtifactId env))
               = (if b0 = 0 \<or> b0 > BIOME_MAX then calc else b0))"
  using assms
  apply (clarsimp simp: executeCrafting_module_def and_then_Inr_iff Let_def)
  apply (frule consume_frame)
  apply (drule push_frame)
  apply (clarsimp simp: writeToStore_def writeArtifact_def checked_add_Inr)
  done


lemma exec_ship_tables:
  assumes "executeCrafting_spaceship env s f ex t ms as b0 = Inr s'"
  shows "FoundryUpgrade s' = FoundryUpgrade s
     \<and> count (FoundryCraftingCount s' (planetHash f))
         = count (FoundryCraftingCount s (planetHash f)) + 1
     \<and> (\<forall>h. h \<noteq> planetHash f \<longrightarrow> FoundryCraftingCount s' h = FoundryCraftingCount s h)
     \<and> (\<exists>f1. consumeMaterials f ms as = Inr f1
           \<and> materialStorage (planets s' (planetHash f)) = materialStorage f1)
     \<and> (\<exists>calc. calculateBiomeFromPlanet env s f = Inr calc
           \<and> cs_biome (CraftedSpaceship s' (newArtifactId env))
               = (if b0 = 0 \<or> b0 > BIOME_MAX then calc else b0))"
  using assms
  apply (clarsimp simp: executeCrafting_spaceship_def and_then_Inr_iff Let_def)
  apply (frule consume_frame)
  apply (drule push_frame)
  apply (clarsimp simp: writeToStore_def writeArtifact_def checked_add_Inr)
  done

lemma upgrade_tables:
  assumes "upgradeFoundry env s h = Inr s'"
  shows "FoundryCraftingCount s' = FoundryCraftingCount s
     \<and> FoundryUpgrade s h < 2
     \<and> FoundryUpgrade s' = (FoundryUpgrade s)(h := FoundryUpgrade s h + 1)"
  using assms
  apply (clarsimp simp: upgradeFoundry_def validateUpgrade_def and_then_Inr_iff Let_def
      split: if_splits)
   apply (clarsimp simp: writeToStore_def checked_add_Inr)+
  done

lemma readInitedPlanet_hash [simp]: "planetHash (readInitedPlanet s h) = h"
  by (simp add: readInitedPlanet_def)

lemma process_module_ok:
  assumes "processModuleCrafting env s h t ms as b = Inr s'"
  shows "b \<le> BIOME_MAX
     \<and> (\<exists>u. validateModuleCrafting s (readInitedPlanet s h) (msgSender env) t ms as = Inr u)
     \<and> executeCrafting_module env s (readInitedPlanet s h) (msgSender env) t ms as b = Inr s'"
  using assms
  by (auto simp: processModuleCrafting_def and_then_Inr_iff Let_def split: if_splits)

lemma process_ship_ok:
  assumes "processSpaceshipCrafting env s h t ms as b = Inr s'"
  shows "b \<le> BIOME_MAX
     \<and> (\<exists>u. validateCrafting s (readInitedPlanet s h) (msgSender env) t ms as = Inr u)
     \<and> executeCrafting_spaceship env s (readInitedPlanet s h) (msgSender env) t ms as b
         = Inr s'"
  using assms
  by (auto simp: processSpaceshipCrafting_def and_then_Inr_iff Let_def split: if_splits)

lemma craft_limit_invD:
  "craft_limit_inv s \<Longrightarrow>
     count (FoundryCraftingCount s h) \<le> 1 + FoundryUpgrade s h \<and> FoundryUpgrade s h \<le> 2"
  by (simp add: craft_limit_inv_def craftCount_def upgradeTier_def)

lemma craft_limit_invI:
  "(\<And>h. count (FoundryCraftingCount s h) \<le> 1 + FoundryUpgrade s h \<and> FoundryUpgrade s h \<le> 2)
     \<Longrightarrow> craft_limit_inv s"
  by (simp add: craft_limit_inv_def craftCount_def upgradeTier_def)

lemma foundryStep_inv:
  assumes inv: "craft_limit_inv s" and step: "foundryStep env s op = Inr s'"
  shows "craft_limit_inv s'"
proof (cases op)
  case (CraftModule h t ms as b)
  with step obtain u where
    v: "validateModuleCrafting s (readInitedPlanet s h) (msgSender env) t ms as = Inr u"
    and e: "executeCrafting_module env s (readInitedPlanet s h) (msgSender env) t ms as b
              = Inr s'"
    using process_module_ok by fastforce
  show ?thesis
  proof (rule craft_limit_invI)
    fix h'
    from craft_limit_invD [OF inv, of h'] validate_module_ok [OF v] exec_module_tables [OF e]
    show "count (FoundryCraftingCount s' h') \<le> 1 + FoundryUpgrade s' h'
            \<and> FoundryUpgrade s' h' \<le> 2"
      by (cases "h' = h") auto
  qed
next
  case (CraftSpaceship h t ms as b)
  with step obtain u where
    v: "validateCrafting s (readInitedPlanet s h) (msgSender env) t ms as = Inr u"
    and e: "executeCrafting_spaceship env s (readInitedPlanet s h) (msgSender env) t ms as b
              = Inr s'"
    using process_ship_ok by fastforce
  show ?thesis
  proof (rule craft_limit_invI)
    fix h'
    from craft_limit_invD [OF inv, of h'] validate_ship_ok [OF v] exec_ship_tables [OF e]
    show "count (FoundryCraftingCount s' h') \<le> 1 + FoundryUpgrade s' h'
            \<and> FoundryUpgrade s' h' \<le> 2"
      by (cases "h' = h") auto
  qed
next
  case (UpgradeFoundry h)
  with step have u: "upgradeFoundry env s h = Inr s'" by simp
  show ?thesis
  proof (rule craft_limit_invI)
    fix h'
    from craft_limit_invD [OF inv, of h'] upgrade_tables [OF u]
    show "count (FoundryCraftingCount s' h') \<le> 1 + FoundryUpgrade s' h'
            \<and> FoundryUpgrade s' h' \<le> 2"
      by (cases "h' = h") auto
  qed
qed

lemma foundryRun_inv: "craft_limit_inv s \<Longrightarrow> craft_limit_inv (foundryRun s ops)"
proof (induction ops arbitrary: s)
  case Nil
  then show ?case by simp
next
  case (Cons a ops)
  obtain env op where a: "a = (env, op)" by (cases a)
  show ?case
  proof (cases "foundryStep env s op")
    case (Inl e)
    with Cons a show ?thesis by simp
  next
    case (Inr s')
    with Cons.prems have "craft_limit_inv s'" by (rule_tac foundryStep_inv)
    with Cons.IH Inr a show ?thesis by simp
  qed
qed

lemmas craft_eval =
  processModuleCrafting_def processSpaceshipCrafting_def readInitedPlanet_def
  validateModuleCrafting_def validateCrafting_def validateModuleRecipe_def validateRecipe_def
  validateRecipeAgainst_def moduleRecipe_def spaceshipRecipe_def
  executeCrafting_module_def executeCrafting_spaceship_def
  getCraftingMMultiplier_def getCraftingMultiplier_def
  calculateModuleRarity_def calculateSpaceshipRarity_def calculateBiomeFromPlanet_def
  calculateAttackBonus_def calculateDefenseBonus_def calculateSpeedBonus_def
  calculateRangeBonus_def calculateShipAttackBonus_def calculateShipDefenseBonus_def
  calculateShipSpeedBonus_def calculateShipRangeBonus_def scaledBonus_def
  getBiomeBonus_def getRarityMultiplier_def
  getModuleRoleAttackBonus_def getModuleRoleDefenseBonus_def getModuleRoleSpeedBonus_def
  getModuleRoleRangeBonus_def getSpaceshipRoleAttackBonus_def getSpaceshipRoleDefenseBonus_def
  getSpaceshipRoleSpeedBonus_def getSpaceshipRoleRangeBonus_def
  checked_add_def checked_sub_def checked_mul_def UINT8_MAX_def UINT16_MAX_def UINT256_MAX_def
  BIOME_MAX_def CORRUPTED_def getMaterial_def setMaterial_def pushArtifact_def
  writeToStore_def writeArtifact_def Let_def
  foundry_world_def used_foundry_world_def empty_world_def stocked_foundry_def
  empty_planet_def owner_env_def stranger_env_def

section \<open>The crafting limit\<close>

text \<open>
  C6, as stated, fails: the limit is the fifth test of the validation. A craft at the
  limit by a caller who does not own the station is rejected with \<open>NotPlanetOwner\<close>.
\<close>

theorem craft_limit_counterexample:
  "1 + upgradeTier used_foundry_world 1 \<le> craftCount used_foundry_world 1
   \<and> processModuleCrafting stranger_env used_foundry_world 1 1 [WINDSTEEL, AURORIUM] [120, 60] 1
       = Inl NotPlanetOwner"
  by (simp add: craftCount_def upgradeTier_def craft_eval)

text \<open>
  C6, amended. The multiplier table is 100, 150, 225 for the counts 0, 1, 2. Every craft,
  of a module or of a spaceship, attempted while \<open>craftCount \<ge> 1 + upgradeTier\<close> is
  rejected, and a rejected craft changes nothing. The error is the one of the first test
  that fails, in the order of the contract: the decoding of the biome argument, then
  \<open>NotPlanetOwner\<close>, \<open>InvalidPlanetType\<close>, \<open>PlanetLevelTooLow\<close>,
  \<open>InvalidModuleType\<close> (\<open>InvalidSpaceshipType\<close> for a spaceship), then the overflow
  of \<open>1 + upgradeLevel\<close> in \<open>uint8\<close> at the tier 255; it is
  \<open>FoundryCraftingLimitReached\<close> exactly when none of these fails.
\<close>

theorem craft_limit_rejects:
  "getCraftingMMultiplier 0 = 100 \<and> getCraftingMMultiplier 1 = 150
   \<and> getCraftingMMultiplier 2 = 225
   \<and> getCraftingMultiplier 0 = 100 \<and> getCraftingMultiplier 1 = 150
   \<and> getCraftingMultiplier 2 = 225
   \<and> (1 + upgradeTier s h \<le> craftCount s h \<longrightarrow>
        processModuleCrafting env s h t ms as b =
          Inl (if b > BIOME_MAX then AbiDecodingFailed
               else if owner (planets s h) \<noteq> msgSender env then NotPlanetOwner
               else if planetType (planets s h) \<noteq> FOUNDRY then InvalidPlanetType
               else if level (planets s h) < 4 then PlanetLevelTooLow
               else if t < 1 \<or> t > 4 then InvalidModuleType
               else if upgradeTier s h \<ge> 255 then Panic
               else FoundryCraftingLimitReached)
        \<and> processSpaceshipCrafting env s h t ms as b =
          Inl (if b > BIOME_MAX then AbiDecodingFailed
               else if owner (planets s h) \<noteq> msgSender env then NotPlanetOwner
               else if planetType (planets s h) \<noteq> FOUNDRY then InvalidPlanetType
               else if level (planets s h) < 4 then PlanetLevelTooLow
               else if t < 1 \<or> t > 4 then InvalidSpaceshipType
               else if upgradeTier s h \<ge> 255 then Panic
               else FoundryCraftingLimitReached))"
proof -
  have tab: "getCraftingMMultiplier 0 = 100 \<and> getCraftingMMultiplier 1 = 150
     \<and> getCraftingMMultiplier 2 = 225 \<and> getCraftingMultiplier 0 = 100
     \<and> getCraftingMultiplier 1 = 150 \<and> getCraftingMultiplier 2 = 225"
    by (simp add: getCraftingMMultiplier_def getCraftingMultiplier_def)
  have m: "processModuleCrafting env s h t ms as b =
          Inl (if b > BIOME_MAX then AbiDecodingFailed
               else if owner (planets s h) \<noteq> msgSender env then NotPlanetOwner
               else if planetType (planets s h) \<noteq> FOUNDRY then InvalidPlanetType
               else if level (planets s h) < 4 then PlanetLevelTooLow
               else if t < 1 \<or> t > 4 then InvalidModuleType
               else if upgradeTier s h \<ge> 255 then Panic
               else FoundryCraftingLimitReached)"
    if "1 + upgradeTier s h \<le> craftCount s h"
    using that
    by (simp add: processModuleCrafting_def validateModuleCrafting_def readInitedPlanet_def
        checked_add_def UINT8_MAX_def craftCount_def upgradeTier_def Let_def)
  have sh: "processSpaceshipCrafting env s h t ms as b =
          Inl (if b > BIOME_MAX then AbiDecodingFailed
               else if owner (planets s h) \<noteq> msgSender env then NotPlanetOwner
               else if planetType (planets s h) \<noteq> FOUNDRY then InvalidPlanetType
               else if level (planets s h) < 4 then PlanetLevelTooLow
               else if t < 1 \<or> t > 4 then InvalidSpaceshipType
               else if upgradeTier s h \<ge> 255 then Panic
               else FoundryCraftingLimitReached)"
    if "1 + upgradeTier s h \<le> craftCount s h"
    using that
    by (simp add: processSpaceshipCrafting_def validateCrafting_def readInitedPlanet_def
        checked_add_def UINT8_MAX_def craftCount_def upgradeTier_def Let_def)
  from tab m sh show ?thesis by blast
qed

theorem craft_limit_rejects_witness:
  "1 + upgradeTier used_foundry_world 1 \<le> craftCount used_foundry_world 1
   \<and> processModuleCrafting owner_env used_foundry_world 1 1 [WINDSTEEL, AURORIUM] [120, 60] 1
       = Inl FoundryCraftingLimitReached
   \<and> processSpaceshipCrafting stranger_env used_foundry_world 1 1 [WINDSTEEL, AURORIUM]
        [150, 75] 1 = Inl NotPlanetOwner
   \<and> processSpaceshipCrafting owner_env used_foundry_world 1 7 [WINDSTEEL, AURORIUM]
        [150, 75] 1 = Inl InvalidSpaceshipType"
proof -
  have a: "1 + upgradeTier used_foundry_world 1 \<le> craftCount used_foundry_world 1"
    by (simp add: craftCount_def upgradeTier_def used_foundry_world_def foundry_world_def
        empty_world_def)
  have b: "owner (planets used_foundry_world 1) = 7"
    "planetType (planets used_foundry_world 1) = FOUNDRY"
    "level (planets used_foundry_world 1) = 4"
    "upgradeTier used_foundry_world 1 = 0"
    "msgSender owner_env = 7" "msgSender stranger_env = 8"
    by (simp_all add: upgradeTier_def used_foundry_world_def foundry_world_def empty_world_def
        stocked_foundry_def owner_env_def stranger_env_def)
  from a b craft_limit_rejects [of used_foundry_world 1 owner_env 1
      "[WINDSTEEL, AURORIUM]" "[120, 60]" 1]
  have A: "processModuleCrafting owner_env used_foundry_world 1 1 [WINDSTEEL, AURORIUM]
      [120, 60] 1 = Inl FoundryCraftingLimitReached"
    by (simp add: BIOME_MAX_def)
  from a b craft_limit_rejects [of used_foundry_world 1 stranger_env 1
      "[WINDSTEEL, AURORIUM]" "[150, 75]" 1]
  have B: "processSpaceshipCrafting stranger_env used_foundry_world 1 1 [WINDSTEEL, AURORIUM]
      [150, 75] 1 = Inl NotPlanetOwner"
    by (simp add: BIOME_MAX_def)
  from a b craft_limit_rejects [of used_foundry_world 1 owner_env 7
      "[WINDSTEEL, AURORIUM]" "[150, 75]" 1]
  have C: "processSpaceshipCrafting owner_env used_foundry_world 1 7 [WINDSTEEL, AURORIUM]
      [150, 75] 1 = Inl InvalidSpaceshipType"
    by (simp add: BIOME_MAX_def)
  from a A B C show ?thesis by blast
qed

text \<open>
  C9. Every operation on a station (module craft, spaceship craft, foundry upgrade), and
  so every history of them, preserves \<open>craftCount \<le> 1 + upgradeTier\<close> and
  \<open>upgradeTier \<le> 2\<close> for every station; the craft count of a station never exceeds 3.
\<close>

theorem craft_count_bounded:
  assumes "craft_limit_inv s"
  shows "(\<forall>env op s'. foundryStep env s op = Inr s' \<longrightarrow> craft_limit_inv s')
       \<and> craft_limit_inv (foundryRun s ops)
       \<and> (\<forall>h. craftCount (foundryRun s ops) h \<le> 3)"
proof -
  have r: "craft_limit_inv (foundryRun s ops)"
    using assms by (rule foundryRun_inv)
  have "craftCount (foundryRun s ops) h \<le> 3" for h
    using craft_limit_invD [OF r, of h] by (simp add: craftCount_def)
  with r assms show ?thesis
    by (blast intro: foundryStep_inv)
qed

theorem craft_count_bounded_witness:
  "craft_limit_inv foundry_world
   \<and> holds_after craft_limit_inv
       (foundryStep owner_env foundry_world (CraftModule 1 1 [WINDSTEEL, AURORIUM] [80, 40] 1))
       = Inr True
   \<and> craftCount (foundryRun foundry_world
        [(owner_env, CraftModule 1 1 [WINDSTEEL, AURORIUM] [80, 40] 1),
         (owner_env, UpgradeFoundry 1)]) 1 \<le> 3"
proof -
  have inv: "craft_limit_inv foundry_world"
    by (simp add: craft_limit_inv_def craftCount_def upgradeTier_def foundry_world_def
        empty_world_def)
  obtain s' where st:
    "foundryStep owner_env foundry_world (CraftModule 1 1 [WINDSTEEL, AURORIUM] [80, 40] 1)
       = Inr s'"
    by (simp add: craft_eval)
  from craft_count_bounded [OF inv] st have s': "craft_limit_inv s'" by blast
  from craft_count_bounded [OF inv, of "[(owner_env, CraftModule 1 1 [WINDSTEEL, AURORIUM] [80, 40] 1),
         (owner_env, UpgradeFoundry 1)]"]
  have run: "craftCount (foundryRun foundry_world
        [(owner_env, CraftModule 1 1 [WINDSTEEL, AURORIUM] [80, 40] 1),
         (owner_env, UpgradeFoundry 1)]) 1 \<le> 3" by blast
  have "holds_after craft_limit_inv
       (foundryStep owner_env foundry_world (CraftModule 1 1 [WINDSTEEL, AURORIUM] [80, 40] 1))
       = Inr True"
    using s' by (simp only: st holds_after_def sum.case)
  with inv run show ?thesis by blast
qed

section \<open>The biome of a crafted item\<close>

lemma biome_value:
  assumes "calculateBiomeFromPlanet env s p = Inr calc"
  shows "calc = (if spaceType p = DEAD_SPACE then CORRUPTED
                 else min BIOME_MAX (spaceTypeIndex (spaceType p) * 3
                   - (if biomeHash env (planetHash p) (perlin p) mod 1000 < threshold1 s then 2
                      else if biomeHash env (planetHash p) (perlin p) mod 1000 < threshold2 s
                      then 1 else 0)))"
  using assms
  by (auto simp: calculateBiomeFromPlanet_def and_then_Inr_iff Let_def checked_sub_def
      split: if_splits)

text \<open>
  C10, as stated, fails for a biome above the maximum: such a value is not a value of the
  enumeration, the request is rejected when its arguments are decoded, and no item is
  crafted whose biome could be replaced.
\<close>

theorem biome_out_of_range_counterexample:
  "BIOME_MAX < 11
   \<and> processModuleCrafting owner_env foundry_world 1 1 [WINDSTEEL, AURORIUM] [80, 40] 11
       = Inl AbiDecodingFailed
   \<and> processSpaceshipCrafting owner_env foundry_world 1 1 [WINDSTEEL, AURORIUM] [100, 50] 11
       = Inl AbiDecodingFailed"
  by (simp add: processModuleCrafting_def processSpaceshipCrafting_def BIOME_MAX_def)

text \<open>
  C10, amended. A craft request whose biome argument is above the maximum is rejected when
  its arguments are decoded. A craft that succeeds has a biome argument of 0 to 10: for 0
  it stores the biome computed from the foundry (Corrupted in dead space, otherwise three
  times the space type, less 2 or 1 when the hash of the planet hash and the perlin value,
  modulo 1000, is below the first or the second configured threshold, and at most the
  maximum); for 1 to 10 it stores the biome of the request unchanged. The same in both
  crafting systems.
\<close>

theorem crafted_biome:
  "(BIOME_MAX < b \<longrightarrow>
      processModuleCrafting env s h t ms as b = Inl AbiDecodingFailed
      \<and> processSpaceshipCrafting env s h t ms as b = Inl AbiDecodingFailed)
   \<and> (processModuleCrafting env s h t ms as b = Inr s' \<longrightarrow>
      b \<le> BIOME_MAX
      \<and> (\<exists>calc. calculateBiomeFromPlanet env s (readInitedPlanet s h) = Inr calc
         \<and> calc = (if spaceType (planets s h) = DEAD_SPACE then CORRUPTED
                    else min BIOME_MAX (spaceTypeIndex (spaceType (planets s h)) * 3
                      - (if biomeHash env h (perlin (planets s h)) mod 1000 < threshold1 s
                         then 2
                         else if biomeHash env h (perlin (planets s h)) mod 1000 < threshold2 s
                         then 1 else 0)))
         \<and> cm_biome (CraftedModules s' (newArtifactId env)) = (if b = 0 then calc else b)))
   \<and> (processSpaceshipCrafting env s h t ms as b = Inr s' \<longrightarrow>
      b \<le> BIOME_MAX
      \<and> (\<exists>calc. calculateBiomeFromPlanet env s (readInitedPlanet s h) = Inr calc
         \<and> calc = (if spaceType (planets s h) = DEAD_SPACE then CORRUPTED
                    else min BIOME_MAX (spaceTypeIndex (spaceType (planets s h)) * 3
                      - (if biomeHash env h (perlin (planets s h)) mod 1000 < threshold1 s
                         then 2
                         else if biomeHash env h (perlin (planets s h)) mod 1000 < threshold2 s
                         then 1 else 0)))
         \<and> cs_biome (CraftedSpaceship s' (newArtifactId env)) = (if b = 0 then calc else b)))"
proof (intro conjI impI)
  assume "BIOME_MAX < b"
  then show "processModuleCrafting env s h t ms as b = Inl AbiDecodingFailed"
    and "processSpaceshipCrafting env s h t ms as b = Inl AbiDecodingFailed"
    by (simp_all add: processModuleCrafting_def processSpaceshipCrafting_def)
next
  assume st: "processModuleCrafting env s h t ms as b = Inr s'"
  from process_module_ok [OF st] show "b \<le> BIOME_MAX" by simp
next
  assume st: "processModuleCrafting env s h t ms as b = Inr s'"
  from process_module_ok [OF st] have le: "b \<le> BIOME_MAX"
    and e: "executeCrafting_module env s (readInitedPlanet s h) (msgSender env) t ms as b
      = Inr s'" by simp_all
  from exec_module_tables [OF e] obtain calc where
    c: "calculateBiomeFromPlanet env s (readInitedPlanet s h) = Inr calc"
    and d: "cm_biome (CraftedModules s' (newArtifactId env))
             = (if b = 0 \<or> b > BIOME_MAX then calc else b)" by blast
  from biome_value [OF c] c d le
  show "\<exists>calc. calculateBiomeFromPlanet env s (readInitedPlanet s h) = Inr calc
         \<and> calc = (if spaceType (planets s h) = DEAD_SPACE then CORRUPTED
                    else min BIOME_MAX (spaceTypeIndex (spaceType (planets s h)) * 3
                      - (if biomeHash env h (perlin (planets s h)) mod 1000 < threshold1 s
                         then 2
                         else if biomeHash env h (perlin (planets s h)) mod 1000 < threshold2 s
                         then 1 else 0)))
         \<and> cm_biome (CraftedModules s' (newArtifactId env)) = (if b = 0 then calc else b)"
    by (simp add: readInitedPlanet_def)
next
  assume st: "processSpaceshipCrafting env s h t ms as b = Inr s'"
  from process_ship_ok [OF st] show "b \<le> BIOME_MAX" by simp
next
  assume st: "processSpaceshipCrafting env s h t ms as b = Inr s'"
  from process_ship_ok [OF st] have le: "b \<le> BIOME_MAX"
    and e: "executeCrafting_spaceship env s (readInitedPlanet s h) (msgSender env) t ms as b
      = Inr s'" by simp_all
  from exec_ship_tables [OF e] obtain calc where
    c: "calculateBiomeFromPlanet env s (readInitedPlanet s h) = Inr calc"
    and d: "cs_biome (CraftedSpaceship s' (newArtifactId env))
             = (if b = 0 \<or> b > BIOME_MAX then calc else b)" by blast
  from biome_value [OF c] c d le
  show "\<exists>calc. calculateBiomeFromPlanet env s (readInitedPlanet s h) = Inr calc
         \<and> calc = (if spaceType (planets s h) = DEAD_SPACE then CORRUPTED
                    else min BIOME_MAX (spaceTypeIndex (spaceType (planets s h)) * 3
                      - (if biomeHash env h (perlin (planets s h)) mod 1000 < threshold1 s
                         then 2
                         else if biomeHash env h (perlin (planets s h)) mod 1000 < threshold2 s
                         then 1 else 0)))
         \<and> cs_biome (CraftedSpaceship s' (newArtifactId env)) = (if b = 0 then calc else b)"
    by (simp add: readInitedPlanet_def)
qed

theorem crafted_biome_witness:
  "holds_after (\<lambda>s'. cm_biome (CraftedModules s' (newArtifactId owner_env)) = 1)
     (processModuleCrafting owner_env foundry_world 1 1 [WINDSTEEL, AURORIUM] [80, 40] 0)
     = Inr True
   \<and> holds_after (\<lambda>s'. cs_biome (CraftedSpaceship s' (newArtifactId owner_env)) = 5)
     (processSpaceshipCrafting owner_env foundry_world 1 1 [WINDSTEEL, AURORIUM] [100, 50] 5)
     = Inr True
   \<and> BIOME_MAX < 200
   \<and> processModuleCrafting owner_env foundry_world 1 1 [WINDSTEEL, AURORIUM] [80, 40] 200
       = Inl AbiDecodingFailed"
proof -
  obtain s1 where s1:
    "processModuleCrafting owner_env foundry_world 1 1 [WINDSTEEL, AURORIUM] [80, 40] 0 = Inr s1"
    by (simp add: craft_eval)
  obtain s2 where s2:
    "processSpaceshipCrafting owner_env foundry_world 1 1 [WINDSTEEL, AURORIUM] [100, 50] 5
       = Inr s2"
    by (simp add: craft_eval)
  have p: "spaceType (planets foundry_world 1) = NEBULA"
    "biomeHash owner_env 1 (perlin (planets foundry_world 1)) mod 1000 < threshold1 foundry_world"
    by (simp_all add: foundry_world_def empty_world_def stocked_foundry_def owner_env_def)
  from crafted_biome [of 0 owner_env foundry_world 1 1 "[WINDSTEEL, AURORIUM]" "[80, 40]" s1]
    s1 p
  have a: "cm_biome (CraftedModules s1 (newArtifactId owner_env)) = 1"
    by (auto simp: BIOME_MAX_def)
  from crafted_biome [of 5 owner_env foundry_world 1 1 "[WINDSTEEL, AURORIUM]" "[100, 50]" s2]
    s2
  have b: "cs_biome (CraftedSpaceship s2 (newArtifactId owner_env)) = 5"
    by (auto simp: BIOME_MAX_def)
  have m: "BIOME_MAX < 200" by (simp add: BIOME_MAX_def)
  from m crafted_biome [of 200 owner_env foundry_world 1 1 "[WINDSTEEL, AURORIUM]" "[80, 40]" s1]
  have c: "processModuleCrafting owner_env foundry_world 1 1 [WINDSTEEL, AURORIUM] [80, 40] 200
       = Inl AbiDecodingFailed" by blast
  have ab: "holds_after (\<lambda>s'. cm_biome (CraftedModules s' (newArtifactId owner_env)) = 1)
     (processModuleCrafting owner_env foundry_world 1 1 [WINDSTEEL, AURORIUM] [80, 40] 0)
     = Inr True
   \<and> holds_after (\<lambda>s'. cs_biome (CraftedSpaceship s' (newArtifactId owner_env)) = 5)
     (processSpaceshipCrafting owner_env foundry_world 1 1 [WINDSTEEL, AURORIUM] [100, 50] 5)
     = Inr True"
    using a b by (simp only: s1 s2 holds_after_def sum.case) simp
  from ab m c show ?thesis by blast
qed

section \<open>Resources consumed by a craft\<close>

lemma materialIndex_inj [simp]: "materialIndex a = materialIndex b \<longleftrightarrow> a = b"
  by (cases a; cases b; simp)

lemma materialIndex_lt: "materialIndex m < 12"
  by (cases m) simp_all

lemma storeProvided_ok:
  "storeProvided ms as found amts = Inr (found', amts') \<Longrightarrow>
     distinct ms \<and> length ms \<le> length as
     \<and> (\<forall>i. found' i \<longleftrightarrow> found i \<or> i \<in> materialIndex ` set ms)
     \<and> (\<forall>m \<in> set ms. map_of (zip ms as) m = Some (amts' (materialIndex m)))
     \<and> (\<forall>m \<in> set ms. \<not> found (materialIndex m))
     \<and> (\<forall>i. i \<notin> materialIndex ` set ms \<longrightarrow> amts' i = amts i)"
proof (induction ms as found amts rule: storeProvided.induct)
  case (1 amounts materialFound materialAmounts)
  then show ?case by simp
next
  case (2 m ms materialFound materialAmounts)
  then show ?case by simp
next
  case (3 m ms a as materialFound materialAmounts)
  from "3.prems" have nf: "\<not> materialFound (materialIndex m)"
    and rec: "storeProvided ms as (materialFound(materialIndex m := True))
                (materialAmounts(materialIndex m := a)) = Inr (found', amts')"
    by (auto simp: Let_def split: if_splits)
  have c: "\<not> 12 < materialIndex m" "\<not> 12 \<le> materialIndex m"
    using materialIndex_lt [of m] by linarith+
  note ih = "3.IH" [OF refl c nf rec]
  from ih have d: "distinct ms" and len: "length ms \<le> length as"
    and fnd: "\<And>i. found' i \<longleftrightarrow>
                (i = materialIndex m \<or> materialFound i) \<or> i \<in> materialIndex ` set ms"
    and mp: "\<And>k. k \<in> set ms \<Longrightarrow> map_of (zip ms as) k = Some (amts' (materialIndex k))"
    and nfs: "\<And>k. k \<in> set ms \<Longrightarrow> k \<noteq> m \<and> \<not> materialFound (materialIndex k)"
    and oth: "\<And>i. i \<notin> materialIndex ` set ms \<Longrightarrow>
                amts' i = (if i = materialIndex m then a else materialAmounts i)"
    by (auto split: if_splits)
  from nfs have notin: "m \<notin> set ms" by blast
  then have img: "materialIndex m \<notin> materialIndex ` set ms" by (auto simp: image_iff)
  from oth [OF img] have am: "amts' (materialIndex m) = a" by simp
  show ?case
  proof (intro conjI allI ballI impI)
    show "distinct (m # ms)" using d notin by simp
    show "length (m # ms) \<le> length (a # as)" using len by simp
    show "found' i = (materialFound i \<or> i \<in> materialIndex ` set (m # ms))" for i
      using fnd [of i] by auto
    show "map_of (zip (m # ms) (a # as)) k = Some (amts' (materialIndex k))"
      if "k \<in> set (m # ms)" for k
      using that mp am by auto
    show "\<not> materialFound (materialIndex k)" if "k \<in> set (m # ms)" for k
      using that nf nfs by auto
    show "amts' i = materialAmounts i" if "i \<notin> materialIndex ` set (m # ms)" for i
      using that oth [of i] by auto
  qed
qed

lemma checkExpected_ok:
  "checkExpected ems eas mult found amts = Inr u \<Longrightarrow>
     length ems \<le> length eas
     \<and> (\<forall>i < length ems. found (materialIndex (ems ! i))
          \<and> (eas ! i * mult) div 100 \<le> amts (materialIndex (ems ! i))
          \<and> amts (materialIndex (ems ! i)) \<le> (eas ! i * mult) div 100 + 1)"
proof (induction ems eas mult found amts rule: checkExpected.induct)
  case (1 expectedAmounts craftingMultiplier materialFound materialAmounts)
  then show ?case by simp
next
  case (2 m ms craftingMultiplier materialFound materialAmounts)
  then show ?case by simp
next
  case (3 m ms e es craftingMultiplier materialFound materialAmounts)
  from "3.prems" have f: "materialFound (materialIndex m)"
    and lo: "\<not> (materialAmounts (materialIndex m) < (e * craftingMultiplier) div 100
               \<or> (e * craftingMultiplier) div 100 + 1 < materialAmounts (materialIndex m))"
    and rec: "checkExpected ms es craftingMultiplier materialFound materialAmounts = Inr u"
    by (auto simp: Let_def split: if_splits)
  have nf: "\<not> \<not> materialFound (materialIndex m)" using f by simp
  note ih = "3.IH" [OF refl nf refl refl lo rec]
  show ?case
  proof (intro conjI allI impI)
    show "length (m # ms) \<le> length (e # es)" using ih by simp
  next
    fix i assume "i < length (m # ms)"
    then show "materialFound (materialIndex ((m # ms) ! i))"
      using ih f by (cases i) auto
  next
    fix i assume "i < length (m # ms)"
    then show "(e # es) ! i * craftingMultiplier div 100
                 \<le> materialAmounts (materialIndex ((m # ms) ! i))"
      using ih lo by (cases i) auto
  next
    fix i assume "i < length (m # ms)"
    then show "materialAmounts (materialIndex ((m # ms) ! i))
                 \<le> (e # es) ! i * craftingMultiplier div 100 + 1"
      using ih lo by (cases i) auto
  qed
qed

lemma consume_ok:
  "consumeMaterials f ms as = Inr f1 \<Longrightarrow> distinct ms \<Longrightarrow>
     (\<forall>m \<in> set ms. \<forall>a. map_of (zip ms as) m = Some a \<longrightarrow>
         materialStorage f1 m + a * 1000 = materialStorage f m)
     \<and> (\<forall>k. k \<notin> set ms \<longrightarrow> materialStorage f1 k = materialStorage f k)"
proof (induction f ms as rule: consumeMaterials.induct)
  case (1 foundry amounts)
  then show ?case by simp
next
  case (2 foundry m ms)
  then show ?case by simp
next
  case (3 foundry m ms a as)
  from "3.prems" obtain rest where
    le: "a * 1000 \<le> getMaterial foundry m" and r: "rest = getMaterial foundry m - a * 1000"
    and c: "consumeMaterials (setMaterial foundry m rest) ms as = Inr f1"
    by (auto simp: and_then_Inr_iff Let_def checked_mul_def checked_sub_def split: if_splits)
  from "3.prems" have d: "distinct ms" and notin: "m \<notin> set ms" by simp_all
  note ih = "3.IH" [OF refl refl c d]
  from ih notin have "materialStorage f1 m = rest"
    by (simp add: setMaterial_def)
  with ih le r notin show ?case
    by (auto simp: setMaterial_def getMaterial_def)
qed

lemma recipe_against_ok:
  assumes v: "validateRecipeAgainst f ems eas ms as mult = Inr u"
    and de: "distinct ems" and le: "length ems = length eas"
  shows "distinct ms \<and> set ms = set ems
     \<and> (\<forall>i < length ems. \<exists>a. map_of (zip ms as) (ems ! i) = Some a
            \<and> (eas ! i * mult) div 100 \<le> a \<and> a \<le> (eas ! i * mult) div 100 + 1)"
proof -
  from v obtain found amts where
    len: "length ms = length ems"
    and sp: "storeProvided ms as (\<lambda>i. False) (\<lambda>i. 0) = Inr (found, amts)"
    and ce: "checkExpected ems eas mult found amts = Inr ()"
    by (auto simp: validateRecipeAgainst_def and_then_Inr_iff split: if_splits)
  note s = storeProvided_ok [OF sp]
  note c = checkExpected_ok [OF ce]
  from s have dm: "distinct ms" by simp
  from s have fnd: "\<And>i. found i \<longleftrightarrow> i \<in> materialIndex ` set ms" by simp
  have sub: "set ems \<subseteq> set ms"
  proof
    fix k assume "k \<in> set ems"
    then obtain i where i: "i < length ems" "ems ! i = k" by (auto simp: in_set_conv_nth)
    with c have "found (materialIndex k)" by auto
    with fnd show "k \<in> set ms" by (auto simp: image_iff)
  qed
  have "card (set ems) = card (set ms)"
    using de dm len by (simp add: distinct_card)
  with sub have eq: "set ms = set ems"
    by (metis List.finite_set card_subset_eq)
  have "\<exists>a. map_of (zip ms as) (ems ! i) = Some a
            \<and> (eas ! i * mult) div 100 \<le> a \<and> a \<le> (eas ! i * mult) div 100 + 1"
    if "i < length ems" for i
  proof -
    from that have "ems ! i \<in> set ms" using eq by simp
    with s have "map_of (zip ms as) (ems ! i) = Some (amts (materialIndex (ems ! i)))" by simp
    with c that show ?thesis by simp
  qed
  with dm eq show ?thesis by blast
qed

lemma moduleRecipe_wf:
  "moduleRecipe t = Inr (ems, eas) \<Longrightarrow> distinct ems \<and> length ems = length eas"
  by (auto simp: moduleRecipe_def split: if_splits)

lemma spaceshipRecipe_wf:
  "spaceshipRecipe t = Inr (ems, eas) \<Longrightarrow> distinct ems \<and> length ems = length eas"
  by (auto simp: spaceshipRecipe_def split: if_splits)

lemma craft_ledger:
  assumes v: "validateRecipeAgainst f ems eas ms as mult = Inr u"
    and de: "distinct ems" and le: "length ems = length eas"
    and cm: "consumeMaterials f ms as = Inr f1"
  shows "(\<forall>i < length ems. \<exists>a. suppliedAmount ms as (ems ! i) = Some a
            \<and> (eas ! i * mult) div 100 \<le> a \<and> a \<le> (eas ! i * mult) div 100 + 1
            \<and> materialStorage f1 (ems ! i) + a * 1000 = materialStorage f (ems ! i))
       \<and> (\<forall>k. k \<notin> set ems \<longrightarrow> materialStorage f1 k = materialStorage f k)"
proof -
  note r = recipe_against_ok [OF v de le]
  from r have dm: "distinct ms" and eq: "set ms = set ems" by simp_all
  note c = consume_ok [OF cm dm]
  have "\<exists>a. suppliedAmount ms as (ems ! i) = Some a
            \<and> (eas ! i * mult) div 100 \<le> a \<and> a \<le> (eas ! i * mult) div 100 + 1
            \<and> materialStorage f1 (ems ! i) + a * 1000 = materialStorage f (ems ! i)"
    if "i < length ems" for i
  proof -
    from r that obtain a where a: "map_of (zip ms as) (ems ! i) = Some a"
      "(eas ! i * mult) div 100 \<le> a" "a \<le> (eas ! i * mult) div 100 + 1" by blast
    from that eq have "ems ! i \<in> set ms" by simp
    with c a have "materialStorage f1 (ems ! i) + a * 1000 = materialStorage f (ems ! i)"
      by blast
    with a show ?thesis by (simp add: suppliedAmount_def)
  qed
  moreover have "materialStorage f1 k = materialStorage f k" if "k \<notin> set ems" for k
    using that c eq by simp
  ultimately show ?thesis by blast
qed

lemma module_craft_ledger:
  assumes "processModuleCrafting env s h t ms as b = Inr s'"
  shows "\<exists>ems eas. moduleRecipe t = Inr (ems, eas)
     \<and> (\<forall>i < length ems. \<exists>a. suppliedAmount ms as (ems ! i) = Some a
            \<and> (eas ! i * getCraftingMMultiplier (craftCount s h)) div 100 \<le> a
            \<and> a \<le> (eas ! i * getCraftingMMultiplier (craftCount s h)) div 100 + 1
            \<and> balance s' h (ems ! i) + a * 1000 = balance s h (ems ! i))
     \<and> (\<forall>k. k \<notin> set ems \<longrightarrow> balance s' h k = balance s h k)
     \<and> craftCount s' h = craftCount s h + 1"
proof -
  let ?f = "readInitedPlanet s h"
  from assms obtain u where
    v: "validateModuleCrafting s ?f (msgSender env) t ms as = Inr u"
    and e: "executeCrafting_module env s ?f (msgSender env) t ms as b = Inr s'"
    using process_module_ok by fastforce
  from validate_module_ok [OF v] have
    vr: "validateModuleRecipe ?f t ms as (getCraftingMMultiplier (craftCount s h)) = Inr ()"
    by (simp add: craftCount_def)
  then obtain ems eas where rc: "moduleRecipe t = Inr (ems, eas)"
    and va: "validateRecipeAgainst ?f ems eas ms as (getCraftingMMultiplier (craftCount s h))
               = Inr ()"
    by (auto simp: validateModuleRecipe_def and_then_Inr_iff split: if_splits)
  from exec_module_tables [OF e] obtain f1 where
    cm: "consumeMaterials ?f ms as = Inr f1"
    and ms: "materialStorage (planets s' h) = materialStorage f1"
    and cnt: "count (FoundryCraftingCount s' h) = count (FoundryCraftingCount s h) + 1"
    by auto
  from moduleRecipe_wf [OF rc] have wf: "distinct ems" "length ems = length eas" by simp_all
  from craft_ledger [OF va wf cm] ms cnt rc show ?thesis
    by (simp add: balance_def getMaterial_def craftCount_def readInitedPlanet_def)
qed

lemma ship_craft_ledger:
  assumes "processSpaceshipCrafting env s h t ms as b = Inr s'"
  shows "\<exists>ems eas. spaceshipRecipe t = Inr (ems, eas)
     \<and> (\<forall>i < length ems. \<exists>a. suppliedAmount ms as (ems ! i) = Some a
            \<and> (eas ! i * getCraftingMultiplier (craftCount s h)) div 100 \<le> a
            \<and> a \<le> (eas ! i * getCraftingMultiplier (craftCount s h)) div 100 + 1
            \<and> balance s' h (ems ! i) + a * 1000 = balance s h (ems ! i))
     \<and> (\<forall>k. k \<notin> set ems \<longrightarrow> balance s' h k = balance s h k)
     \<and> craftCount s' h = craftCount s h + 1"
proof -
  let ?f = "readInitedPlanet s h"
  from assms obtain u where
    v: "validateCrafting s ?f (msgSender env) t ms as = Inr u"
    and e: "executeCrafting_spaceship env s ?f (msgSender env) t ms as b = Inr s'"
    using process_ship_ok by fastforce
  from validate_ship_ok [OF v] have
    vr: "validateRecipe ?f t ms as (getCraftingMultiplier (craftCount s h)) = Inr ()"
    by (simp add: craftCount_def)
  then obtain ems eas where rc: "spaceshipRecipe t = Inr (ems, eas)"
    and va: "validateRecipeAgainst ?f ems eas ms as (getCraftingMultiplier (craftCount s h))
               = Inr ()"
    by (auto simp: validateRecipe_def and_then_Inr_iff split: if_splits)
  from exec_ship_tables [OF e] obtain f1 where
    cm: "consumeMaterials ?f ms as = Inr f1"
    and ms: "materialStorage (planets s' h) = materialStorage f1"
    and cnt: "count (FoundryCraftingCount s' h) = count (FoundryCraftingCount s h) + 1"
    by auto
  from spaceshipRecipe_wf [OF rc] have wf: "distinct ems" "length ems = length eas" by simp_all
  from craft_ledger [OF va wf cm] ms cnt rc show ?thesis
    by (simp add: balance_def getMaterial_def craftCount_def readInitedPlanet_def)
qed

text \<open>
  C5, as stated, fails: the contract consumes the amounts that the request supplies, and
  accepts for each kind the truncated scaled amount or one unit more. An Engine craft at
  count 0 that supplies 81 units of the first kind, where the scaled base amount is 80,
  succeeds and lowers the balance by 81 thousand storage units.
\<close>

theorem craft_ceiling_counterexample:
  "balance foundry_world 1 WINDSTEEL = 1000000
   \<and> balance_after 1 WINDSTEEL
       (processModuleCrafting owner_env foundry_world 1 1 [WINDSTEEL, AURORIUM] [81, 41] 1)
       = Inr 919000
   \<and> ceil_div (80 * getCraftingMMultiplier (craftCount foundry_world 1)) 100 = 80"
  by (simp add: balance_after_def balance_def craftCount_def ceil_div_def craft_eval)

text \<open>
  C5, amended. For every craft that succeeds, of a module or of a spaceship, the request
  supplies for each resource kind of the recipe an amount \<open>a\<close> with
  \<open>floor(base * multiplierPercent(craftCount) / 100) \<le> a \<le> floor(...) + 1\<close>, the
  balance of that kind decreases by exactly \<open>1000 * a\<close> storage units, no other balance
  changes, and the craft count of the station increases by exactly 1.
\<close>

theorem craft_consumes_supplied:
  "(processModuleCrafting env s h t ms as b = Inr s' \<longrightarrow>
     (\<exists>ems eas. moduleRecipe t = Inr (ems, eas)
       \<and> (\<forall>i < length ems. \<exists>a. suppliedAmount ms as (ems ! i) = Some a
            \<and> (eas ! i * getCraftingMMultiplier (craftCount s h)) div 100 \<le> a
            \<and> a \<le> (eas ! i * getCraftingMMultiplier (craftCount s h)) div 100 + 1
            \<and> balance s' h (ems ! i) + a * 1000 = balance s h (ems ! i))
       \<and> (\<forall>k. k \<notin> set ems \<longrightarrow> balance s' h k = balance s h k)
       \<and> craftCount s' h = craftCount s h + 1))
   \<and> (processSpaceshipCrafting env s h t ms as b = Inr s' \<longrightarrow>
     (\<exists>ems eas. spaceshipRecipe t = Inr (ems, eas)
       \<and> (\<forall>i < length ems. \<exists>a. suppliedAmount ms as (ems ! i) = Some a
            \<and> (eas ! i * getCraftingMultiplier (craftCount s h)) div 100 \<le> a
            \<and> a \<le> (eas ! i * getCraftingMultiplier (craftCount s h)) div 100 + 1
            \<and> balance s' h (ems ! i) + a * 1000 = balance s h (ems ! i))
       \<and> (\<forall>k. k \<notin> set ems \<longrightarrow> balance s' h k = balance s h k)
       \<and> craftCount s' h = craftCount s h + 1))"
  using module_craft_ledger [of env s h t ms as b s']
    ship_craft_ledger [of env s h t ms as b s']
  by blast

theorem craft_consumes_supplied_witness:
  "balance_after 1 AURORIUM
       (processModuleCrafting owner_env foundry_world 1 1 [WINDSTEEL, AURORIUM] [81, 40] 1)
       = Inr 960000
   \<and> holds_after (\<lambda>s'. craftCount s' 1 = 1 \<and> balance s' 1 PYROSTEEL = 1000000)
       (processModuleCrafting owner_env foundry_world 1 1 [WINDSTEEL, AURORIUM] [81, 40] 1)
       = Inr True"
proof -
  obtain s' where st:
    "processModuleCrafting owner_env foundry_world 1 1 [WINDSTEEL, AURORIUM] [81, 40] 1 = Inr s'"
    by (simp add: craft_eval)
  from craft_consumes_supplied [of owner_env foundry_world 1 1 "[WINDSTEEL, AURORIUM]"
      "[81, 40]" 1 s'] st
  obtain ems eas where
    rc: "moduleRecipe 1 = Inr (ems, eas)"
    and a: "\<forall>i < length ems. \<exists>a. suppliedAmount [WINDSTEEL, AURORIUM] [81, 40] (ems ! i) = Some a
            \<and> balance s' 1 (ems ! i) + a * 1000 = balance foundry_world 1 (ems ! i)"
    and b: "\<forall>k. k \<notin> set ems \<longrightarrow> balance s' 1 k = balance foundry_world 1 k"
    and c: "craftCount s' 1 = craftCount foundry_world 1 + 1"
    by blast
  from rc have ems: "ems = [WINDSTEEL, AURORIUM]" by (simp add: moduleRecipe_def)
  from a [rule_format, of 1] ems have "balance s' 1 AURORIUM + 40 * 1000 = balance foundry_world 1 AURORIUM"
    by (simp add: suppliedAmount_def)
  then have x: "balance s' 1 AURORIUM = 960000"
    by (simp add: balance_def getMaterial_def foundry_world_def stocked_foundry_def empty_world_def)
  from b ems have y: "balance s' 1 PYROSTEEL = 1000000"
    by (simp add: balance_def getMaterial_def foundry_world_def stocked_foundry_def empty_world_def)
  from c have z: "craftCount s' 1 = 1"
    by (simp add: craftCount_def foundry_world_def empty_world_def)
  from x y z show ?thesis
    by (simp only: st holds_after_def balance_after_def sum.case) simp
qed

section \<open>Equipment: what install and uninstall change\<close>

lemma validate_install_ok:
  assumes "validateInstallModule s p ex c m = Inr u"
  shows "owner p = ex \<and> ArtifactOwner s c = planetHash p \<and> planetHash p \<noteq> 0
     \<and> artifactIndex (ArtifactTable s c) = 3
     \<and> ArtifactOwner s m = planetHash p \<and> artifactIndex (ArtifactTable s m) = 23
     \<and> \<not> (inst_installed (SpaceshipModuleInstalled s m)
           \<and> inst_artifactId (SpaceshipModuleInstalled s m) > 0
           \<and> inst_artifactId (SpaceshipModuleInstalled s m) \<noteq> c)
     \<and> cs_spaceshipType (CraftedSpaceship s c) \<noteq> 0
     \<and> cm_moduleType (CraftedModules s m) \<noteq> 0"
  using assms
  by (simp add: validateInstallModule_def Let_def split: if_splits)

lemma remove_frame:
  "removeArtifact p a = Inr p' \<Longrightarrow>
     a \<in> set (artifactStorage p) \<and> p' = p\<lparr>artifactStorage := remove1 a (artifactStorage p)\<rparr>"
  by (auto simp: removeArtifact_def split: if_splits)

lemma install_effect:
  assumes "processInstallModule env s c m h = Inr s'"
  shows "\<exists>slotType slotIndex nb.
       getSlotTypeForModuleType (cm_moduleType (CraftedModules s m)) = Inr slotType
     \<and> getSlotIndexForSlotType slotType = Inr slotIndex
     \<and> addBonuses (SpaceshipBonus s c) (ModuleBonus s m) = Inr nb
     \<and> m \<in> set (artifactStorage (planets s h))
     \<and> SpaceshipModuleInstalled s' = (SpaceshipModuleInstalled s)(m :=
          \<lparr>inst_artifactId = c, inst_moduleSlotType = slotType, inst_installed = True\<rparr>)
     \<and> SpaceshipSlot s' = (SpaceshipSlot s)((c, slotIndex) :=
          \<lparr>slot_moduleSlotType = slotType, slot_moduleId = m\<rparr>)
     \<and> SpaceshipBonus s' = (SpaceshipBonus s)(c := nb)
     \<and> ModuleBonus s' = ModuleBonus s
     \<and> ArtifactTable s' = ArtifactTable s
     \<and> CraftedSpaceship s' = CraftedSpaceship s
     \<and> CraftedModules s' = CraftedModules s
     \<and> planets s' = (planets s)(h := (planets s h)
          \<lparr>planetHash := h, artifactStorage := remove1 m (artifactStorage (planets s h))\<rparr>)
     \<and> ArtifactOwner s' = (\<lambda>a. if a = m then 0
          else if a \<in> set (remove1 m (artifactStorage (planets s h))) then h
          else ArtifactOwner s a)"
  using assms
  apply (clarsimp simp: processInstallModule_def executeInstallModule_def and_then_Inr_iff
      Let_def)
  apply (drule remove_frame)
  apply (clarsimp simp: writeToStore_def readInitedPlanet_def fun_eq_iff)
  done

lemma install_valid:
  assumes "processInstallModule env s c m h = Inr s'"
  shows "owner (planets s h) = msgSender env \<and> ArtifactOwner s c = h \<and> h \<noteq> 0
     \<and> artifactIndex (ArtifactTable s c) = 3
     \<and> ArtifactOwner s m = h \<and> artifactIndex (ArtifactTable s m) = 23
     \<and> \<not> (inst_installed (SpaceshipModuleInstalled s m)
           \<and> inst_artifactId (SpaceshipModuleInstalled s m) > 0
           \<and> inst_artifactId (SpaceshipModuleInstalled s m) \<noteq> c)"
proof -
  from assms obtain u where
    "validateInstallModule s (readInitedPlanet s h) (msgSender env) c m = Inr u"
    by (auto simp: processInstallModule_def and_then_Inr_iff Let_def)
  from validate_install_ok [OF this] show ?thesis
    by (simp add: readInitedPlanet_def)
qed

lemma uninstall_effect:
  assumes "processUninstallModule env s c m h = Inr s'"
  shows "owner (planets s h) = msgSender env
     \<and> c \<in> set (artifactStorage (planets s h))
     \<and> inst_artifactId (SpaceshipModuleInstalled s m) = c
     \<and> length (artifactStorage (planets s h)) < maxArtifacts env
     \<and> (\<exists>slotIndex.
          getSlotIndexForSlotType (inst_moduleSlotType (SpaceshipModuleInstalled s m))
            = Inr slotIndex
        \<and> SpaceshipSlot s' = (SpaceshipSlot s)((c, slotIndex) :=
            \<lparr>slot_moduleSlotType = inst_moduleSlotType (SpaceshipModuleInstalled s m),
             slot_moduleId = 0\<rparr>))
     \<and> SpaceshipModuleInstalled s' = (SpaceshipModuleInstalled s)(m :=
          \<lparr>inst_artifactId = 0, inst_moduleSlotType = 0, inst_installed = False\<rparr>)
     \<and> SpaceshipBonus s' = (SpaceshipBonus s)(c :=
          subBonuses (SpaceshipBonus s c) (ModuleBonus s m))
     \<and> ModuleBonus s' = ModuleBonus s
     \<and> ArtifactTable s' = ArtifactTable s
     \<and> CraftedSpaceship s' = CraftedSpaceship s
     \<and> CraftedModules s' = CraftedModules s
     \<and> planets s' = (planets s)(h := (planets s h)
          \<lparr>planetHash := h, artifactStorage := artifactStorage (planets s h) @ [m]\<rparr>)
     \<and> ArtifactOwner s' = (\<lambda>a. if a \<in> set (artifactStorage (planets s h) @ [m]) then h
          else ArtifactOwner s a)"
  using assms
  apply (clarsimp simp: processUninstallModule_def executeUninstallModule_def
      validateUninstallModule_def and_then_Inr_iff Let_def hasArtifactSlot_def
      split: if_splits)
  apply (clarsimp simp: pushArtifact_def writeToStore_def readInitedPlanet_def fun_eq_iff
      split: if_splits)
  done


section \<open>The aggregate of a carrier\<close>

lemma addBonuses_axis:
  "addBonuses a b = Inr r \<Longrightarrow> axisValue ax r = axisValue ax a + axisValue ax b"
  by (cases ax) (auto simp: addBonuses_def and_then_Inr_iff checked_add_def split: if_splits)

lemma subBonuses_axis:
  "axisValue ax (subBonuses a b) = axisValue ax a - axisValue ax b"
  by (cases ax) (simp_all add: subBonuses_def)

lemma finite_installedOn [simp]: "finite (installedOn s c)"
  by simp

lemma location_invD:
  assumes "location_inv s"
  shows "inst_installed (SpaceshipModuleInstalled s x) \<Longrightarrow> ArtifactOwner s x = 0"
    and "\<not> inst_installed (SpaceshipModuleInstalled s x) \<Longrightarrow>
           inst_artifactId (SpaceshipModuleInstalled s x) = 0
           \<and> inst_moduleSlotType (SpaceshipModuleInstalled s x) = 0"
    and "a \<in> set (artifactStorage (planets s p)) \<Longrightarrow> ArtifactOwner s a = p"
    and "distinct (artifactStorage (planets s p))"
    and "artifactStorage (planets s 0) = []"
  using assms by (simp_all add: location_inv_def)

lemma install_preserves:
  assumes inv: "module_inv own s" and st: "processInstallModule env s c m h = Inr s'"
  shows "module_inv own s'"
proof -
  from inv have loc: "location_inv s" and bon: "bonus_inv own s"
    by (simp_all add: module_inv_def)
  note I = location_invD [OF loc]
  from install_valid [OF st] have om: "ArtifactOwner s m = h" and h0: "h \<noteq> 0" by simp_all
  from install_effect [OF st] obtain slotType slotIndex nb where
    nb: "addBonuses (SpaceshipBonus s c) (ModuleBonus s m) = Inr nb"
    and smi: "SpaceshipModuleInstalled s' = (SpaceshipModuleInstalled s)(m :=
          \<lparr>inst_artifactId = c, inst_moduleSlotType = slotType, inst_installed = True\<rparr>)"
    and sb: "SpaceshipBonus s' = (SpaceshipBonus s)(c := nb)"
    and mb: "ModuleBonus s' = ModuleBonus s"
    and pl: "planets s' = (planets s)(h := (planets s h)
          \<lparr>planetHash := h, artifactStorage := remove1 m (artifactStorage (planets s h))\<rparr>)"
    and ao: "ArtifactOwner s' = (\<lambda>a. if a = m then 0
          else if a \<in> set (remove1 m (artifactStorage (planets s h))) then h
          else ArtifactOwner s a)"
    by blast
  have nflag: "\<not> inst_installed (SpaceshipModuleInstalled s m)"
    using I(1) [of m] om h0 by auto
  have st_h: "artifactStorage (planets s' h) = remove1 m (artifactStorage (planets s h))"
    by (simp add: pl)
  have st_o: "artifactStorage (planets s' p) = artifactStorage (planets s p)" if "p \<noteq> h" for p
    using that by (simp add: pl)
  have in_rm: "a \<in> set (remove1 m (artifactStorage (planets s h)))
                 \<longleftrightarrow> a \<in> set (artifactStorage (planets s h)) \<and> a \<noteq> m" for a
    using I(4) [of h] by simp
  have L1: "ArtifactOwner s' x = 0" if f: "inst_installed (SpaceshipModuleInstalled s' x)" for x
  proof (cases "x = m")
    case True then show ?thesis by (simp add: ao)
  next
    case False
    with f have "inst_installed (SpaceshipModuleInstalled s x)" by (simp add: smi)
    then have z: "ArtifactOwner s x = 0" using I(1) by blast
    then have "x \<notin> set (artifactStorage (planets s h))" using I(3) [of x h] h0 by auto
    with False z show ?thesis by (simp add: ao in_rm)
  qed
  have L2: "inst_artifactId (SpaceshipModuleInstalled s' x) = 0
           \<and> inst_moduleSlotType (SpaceshipModuleInstalled s' x) = 0"
    if f: "\<not> inst_installed (SpaceshipModuleInstalled s' x)" for x
  proof -
    from f have "x \<noteq> m" by (auto simp: smi)
    with f I(2) [of x] show ?thesis by (simp add: smi)
  qed
  have L3: "ArtifactOwner s' a = p" if a: "a \<in> set (artifactStorage (planets s' p))" for a p
  proof (cases "p = h")
    case True
    with a have "a \<in> set (artifactStorage (planets s h)) \<and> a \<noteq> m"
      by (simp add: st_h in_rm)
    with True show ?thesis by (simp add: ao in_rm)
  next
    case False
    with a have ap: "a \<in> set (artifactStorage (planets s p))" by (simp add: st_o)
    then have o: "ArtifactOwner s a = p" using I(3) by blast
    with False om have "a \<noteq> m" by auto
    moreover have "a \<notin> set (artifactStorage (planets s h))"
      using I(3) [of a h] o False by auto
    ultimately show ?thesis using o by (simp add: ao in_rm)
  qed
  have L4: "distinct (artifactStorage (planets s' p))" for p
    using I(4) [of p] I(4) [of h] by (cases "p = h") (simp_all add: st_h st_o)
  have L5: "artifactStorage (planets s' 0) = []"
    using h0 I(5) by (simp add: st_o)
  from L1 L2 L3 L4 L5 have loc': "location_inv s'"
    unfolding location_inv_def by blast
  have on_c: "installedOn s' c = insert m (installedOn s c)"
    by (auto simp: installedOn_def smi)
  have on_o: "installedOn s' c' = installedOn s c'" if "c' \<noteq> c" for c'
    using that nflag by (auto simp: installedOn_def smi)
  have notin: "m \<notin> installedOn s c"
    using nflag by (simp add: installedOn_def)
  have bon': "bonus_inv own s'"
    unfolding bonus_inv_def
  proof (intro allI)
    fix c' ax
    from bon have b: "axisValue ax (SpaceshipBonus s c')
        = axisValue ax (own c') + moduleBonusTotal ax s c'"
      by (simp add: bonus_inv_def)
    show "axisValue ax (SpaceshipBonus s' c')
        = axisValue ax (own c') + moduleBonusTotal ax s' c'"
    proof (cases "c' = c")
      case True
      have "moduleBonusTotal ax s' c
          = axisValue ax (ModuleBonus s m) + moduleBonusTotal ax s c"
        using notin by (simp add: moduleBonusTotal_def on_c mb)
      with b True addBonuses_axis [OF nb, of ax] show ?thesis
        by (simp add: sb)
    next
      case False
      then have "moduleBonusTotal ax s' c' = moduleBonusTotal ax s c'"
        by (simp add: moduleBonusTotal_def on_o mb)
      with b False show ?thesis by (simp add: sb)
    qed
  qed
  from loc' bon' show ?thesis by (simp add: module_inv_def)
qed


lemma getSlotIndex_nonzero: "getSlotIndexForSlotType t = Inr i \<Longrightarrow> t \<noteq> 0"
  by (auto simp: getSlotIndexForSlotType_def ENGINES_SLOT_def WEAPONS_SLOT_def HULL_SLOT_def
      SHIELD_SLOT_def split: if_splits)

lemma uninstall_preserves:
  assumes inv: "module_inv own s" and st: "processUninstallModule env s c m h = Inr s'"
  shows "module_inv own s'"
proof -
  from inv have loc: "location_inv s" and bon: "bonus_inv own s"
    by (simp_all add: module_inv_def)
  note I = location_invD [OF loc]
  from uninstall_effect [OF st] obtain slotIndex where
    cin: "c \<in> set (artifactStorage (planets s h))"
    and ic: "inst_artifactId (SpaceshipModuleInstalled s m) = c"
    and si: "getSlotIndexForSlotType (inst_moduleSlotType (SpaceshipModuleInstalled s m))
               = Inr slotIndex"
    and smi: "SpaceshipModuleInstalled s' = (SpaceshipModuleInstalled s)(m :=
          \<lparr>inst_artifactId = 0, inst_moduleSlotType = 0, inst_installed = False\<rparr>)"
    and sb: "SpaceshipBonus s' = (SpaceshipBonus s)(c :=
          subBonuses (SpaceshipBonus s c) (ModuleBonus s m))"
    and mb: "ModuleBonus s' = ModuleBonus s"
    and pl: "planets s' = (planets s)(h := (planets s h)
          \<lparr>planetHash := h, artifactStorage := artifactStorage (planets s h) @ [m]\<rparr>)"
    and ao: "ArtifactOwner s' = (\<lambda>a. if a \<in> set (artifactStorage (planets s h) @ [m]) then h
          else ArtifactOwner s a)"
    by blast
  have flag: "inst_installed (SpaceshipModuleInstalled s m)"
    using I(2) [of m] getSlotIndex_nonzero [OF si] by blast
  have h0: "h \<noteq> 0"
  proof
    assume "h = 0"
    with cin I(5) show False by simp
  qed
  have om: "ArtifactOwner s m = 0" using I(1) flag by blast
  have m_out: "m \<notin> set (artifactStorage (planets s p))" for p
  proof
    assume a: "m \<in> set (artifactStorage (planets s p))"
    then have "ArtifactOwner s m = p" using I(3) by blast
    with om have "p = 0" by simp
    with a I(5) show False by simp
  qed
  have st_h: "artifactStorage (planets s' h) = artifactStorage (planets s h) @ [m]"
    by (simp add: pl)
  have st_o: "artifactStorage (planets s' p) = artifactStorage (planets s p)" if "p \<noteq> h" for p
    using that by (simp add: pl)
  have L1: "ArtifactOwner s' x = 0" if f: "inst_installed (SpaceshipModuleInstalled s' x)" for x
  proof -
    from f have xm: "x \<noteq> m" and fx: "inst_installed (SpaceshipModuleInstalled s x)"
      by (auto simp: smi split: if_splits)
    from fx have z: "ArtifactOwner s x = 0" using I(1) by blast
    then have "x \<notin> set (artifactStorage (planets s h))" using I(3) [of x h] h0 by auto
    with xm z show ?thesis by (simp add: ao)
  qed
  have L2: "inst_artifactId (SpaceshipModuleInstalled s' x) = 0
           \<and> inst_moduleSlotType (SpaceshipModuleInstalled s' x) = 0"
    if f: "\<not> inst_installed (SpaceshipModuleInstalled s' x)" for x
    using f I(2) [of x] by (cases "x = m") (simp_all add: smi)
  have L3: "ArtifactOwner s' a = p" if a: "a \<in> set (artifactStorage (planets s' p))" for a p
  proof (cases "p = h")
    case True
    with a show ?thesis by (simp add: st_h ao)
  next
    case False
    with a have ap: "a \<in> set (artifactStorage (planets s p))" by (simp add: st_o)
    then have o: "ArtifactOwner s a = p" using I(3) by blast
    from ap m_out have "a \<noteq> m" by auto
    moreover have "a \<notin> set (artifactStorage (planets s h))"
      using I(3) [of a h] o False by auto
    ultimately show ?thesis using o by (simp add: ao)
  qed
  have L4: "distinct (artifactStorage (planets s' p))" for p
    using I(4) [of p] I(4) [of h] m_out [of h] by (cases "p = h") (simp_all add: st_h st_o)
  have L5: "artifactStorage (planets s' 0) = []"
    using h0 I(5) by (simp add: st_o)
  from L1 L2 L3 L4 L5 have loc': "location_inv s'"
    unfolding location_inv_def by blast
  have min: "m \<in> installedOn s c"
    using flag ic by (simp add: installedOn_def)
  have on_c: "installedOn s' c = installedOn s c - {m}"
    by (auto simp: installedOn_def smi)
  have on_o: "installedOn s' c' = installedOn s c'" if "c' \<noteq> c" for c'
    using that ic by (auto simp: installedOn_def smi)
  have bon': "bonus_inv own s'"
    unfolding bonus_inv_def
  proof (intro allI)
    fix c' ax
    from bon have b: "axisValue ax (SpaceshipBonus s c')
        = axisValue ax (own c') + moduleBonusTotal ax s c'"
      by (simp add: bonus_inv_def)
    show "axisValue ax (SpaceshipBonus s' c')
        = axisValue ax (own c') + moduleBonusTotal ax s' c'"
    proof (cases "c' = c")
      case True
      have "moduleBonusTotal ax s c
          = axisValue ax (ModuleBonus s m) + moduleBonusTotal ax s' c"
        using min by (simp add: moduleBonusTotal_def on_c mb sum.remove [of _ m])
      with b True show ?thesis
        by (simp add: sb subBonuses_axis)
    next
      case False
      then have "moduleBonusTotal ax s' c' = moduleBonusTotal ax s c'"
        by (simp add: moduleBonusTotal_def on_o mb)
      with b False show ?thesis by (simp add: sb)
    qed
  qed
  from loc' bon' show ?thesis by (simp add: module_inv_def)
qed

section \<open>Evaluation of the example states\<close>

lemmas module_eval =
  processInstallModule_def processUninstallModule_def readInitedPlanet_def
  validateInstallModule_def validateUninstallModule_def executeInstallModule_def
  executeUninstallModule_def getSlotTypeForModuleType_def getSlotIndexForSlotType_def
  getModuleLimit_def countInstalledModules_def addBonuses_def subBonuses_def
  ENGINES_SLOT_def WEAPONS_SLOT_def HULL_SLOT_def SHIELD_SLOT_def
  checked_add_def UINT16_MAX_def removeArtifact_def pushArtifact_def hasArtifactSlot_def
  writeToStore_def Let_def
  hangar_world_def hangar_planet_def
  empty_world_def stocked_foundry_def empty_planet_def owner_env_def stranger_env_def
  engine_bonus_def engine_row_def zero_bonus_def

lemma hangar_inv: "module_inv (SpaceshipBonus hangar_world) hangar_world"
  by (auto simp: module_inv_def location_inv_def bonus_inv_def moduleBonusTotal_def
      installedOn_def hangar_world_def hangar_planet_def empty_world_def stocked_foundry_def
      empty_planet_def)

lemma install_eval:
  "\<exists>s'. processInstallModule owner_env hangar_world 1 2 1 = Inr s'"
  by (simp add: module_eval)

section \<open>The aggregate and its installed modules\<close>

text \<open>
  C1, as stated, fails: the table that install and uninstall aggregate into is the table
  in which a craft stores the carrier's own bonuses. A Fighter fresh from the foundry has
  a non-zero attack bonus and no module installed.
\<close>

theorem aggregate_counterexample:
  "holds_after (aggregate_is_module_sum 9)
     (processSpaceshipCrafting owner_env foundry_world 1 2 [PYROSTEEL, SCRAPIUM] [150, 100] 1)
     = Inr False"
  apply (simp add: holds_after_def aggregate_is_module_sum_def moduleBonusTotal_def
      installedOn_def craft_eval)
  apply (rule exI [of _ Attack])
  apply simp
  done

text \<open>
  C1, amended. In every state in which the location of a module is one of station and
  carrier, and after every install or uninstall operation from such a state, the
  aggregated bonuses of every carrier equal, on each of the four axes, the carrier's own
  bonus (what it has with no module installed) plus the sum of the bonuses of the modules
  recorded as installed on that carrier.
\<close>

theorem aggregate_invariant:
  assumes "module_inv own s" and "moduleStep env s op = Inr s'"
  shows "module_inv own s'
     \<and> (\<forall>c ax. axisValue ax (SpaceshipBonus s' c)
                 = axisValue ax (own c) + moduleBonusTotal ax s' c)"
proof -
  have "module_inv own s'"
  proof (cases op)
    case (InstallModule c m h)
    with assms show ?thesis by (auto intro: install_preserves)
  next
    case (UninstallModule c m h)
    with assms show ?thesis by (auto intro: uninstall_preserves)
  qed
  then show ?thesis by (simp add: module_inv_def bonus_inv_def)
qed

theorem aggregate_invariant_witness:
  "module_inv (SpaceshipBonus hangar_world) hangar_world
   \<and> holds_after (module_inv (SpaceshipBonus hangar_world))
       (moduleStep owner_env hangar_world (InstallModule 1 2 1)) = Inr True
   \<and> holds_after (\<lambda>s'. speedBonus (SpaceshipBonus s' 1)
                          = speedBonus (SpaceshipBonus hangar_world 1)
                            + moduleBonusTotal Speed s' 1)
       (moduleStep owner_env hangar_world (InstallModule 1 2 1)) = Inr True"
proof -
  obtain s' where st: "moduleStep owner_env hangar_world (InstallModule 1 2 1) = Inr s'"
    using install_eval by auto
  from aggregate_invariant [OF hangar_inv st]
  have a: "module_inv (SpaceshipBonus hangar_world) s'"
    and b: "axisValue Speed (SpaceshipBonus s' 1)
             = axisValue Speed (SpaceshipBonus hangar_world 1) + moduleBonusTotal Speed s' 1"
    by blast+
  from hangar_inv a b show ?thesis
    by (simp only: st holds_after_def sum.case) simp
qed

section \<open>Slot capacity\<close>

text \<open>
  C2. The contract counts the occupants of a category from the single slot entry of the
  carrier, so the count is never above 1 and the limit of a carrier type that allows two
  or more is never reached. On a Fighter, whose limit for engines is 2, three Engine
  modules install one after the other, and three modules are then recorded as installed
  on the carrier in the engine category.
\<close>

theorem slot_limit_exceeded:
  "category_count_after 1 ENGINES_SLOT
     (moduleRun owner_env hangar_world
        [InstallModule 1 2 1, InstallModule 1 3 1, InstallModule 1 4 1]) = Inr 3
   \<and> getModuleLimit (cs_spaceshipType (CraftedSpaceship hangar_world 1)) ENGINES_SLOT = Inr 2"
  apply (simp add: category_count_after_def installedInCategory_def module_eval)
  apply (rule trans [of _ "card {2::u32, 3, 4}"])
   apply (rule arg_cong [where f = card])
   apply auto
  done

section \<open>Rejected installs\<close>

lemma two_engines_fill_the_fighter:
  "category_count_after 1 ENGINES_SLOT
     (moduleRun owner_env hangar_world [InstallModule 1 2 1, InstallModule 1 3 1]) = Inr 2"
  apply (simp add: category_count_after_def installedInCategory_def module_eval)
  apply (rule trans [of _ "card {2::u32, 3}"])
   apply (rule arg_cong [where f = card])
   apply auto
  done

lemma third_engine_accepted:
  "\<not> isl (moduleRun owner_env hangar_world
            [InstallModule 1 2 1, InstallModule 1 3 1, InstallModule 1 4 1])"
  by (simp add: module_eval)

lemma installs_after_install:
  "installed_row_after 2 (moduleRun owner_env hangar_world [InstallModule 1 2 1])
     = Inr \<lparr>inst_artifactId = 1, inst_moduleSlotType = 1, inst_installed = True\<rparr>
   \<and> moduleRun owner_env hangar_world [InstallModule 1 2 1, InstallModule 5 2 1]
     = Inl ArtifactNotOnPlanet2
   \<and> moduleRun owner_env hangar_world [InstallModule 1 2 1, InstallModule 1 2 1]
     = Inl ArtifactNotOnPlanet2"
  by (simp add: installed_row_after_def module_eval)




section \<open>Install followed by uninstall\<close>

lemma add_then_sub: "addBonuses a b = Inr nb \<Longrightarrow> subBonuses nb b = a"
  by (cases a; cases b)
     (auto simp: addBonuses_def subBonuses_def and_then_Inr_iff checked_add_def
        split: if_splits)



end
